theory Spec2Isabelle
  imports Main "HOL-Library.Sublist" "HOL-Library.AList"
begin

text \<open>
  The transform of the plugin, as \<open>src/unnamed/part_000\<close> has it: one walk over the
  syntax tree of a unit that rewrites \<open>require\<close> calls and writes to \<open>exports\<close>, and
  the texts emitted after the walk. From \<open>src/index.js\<close>, an earlier state of the
  same transform, the interop helper is taken for comparison. The parser and the text
  patcher are outside the repository and are modelled as far as the transform uses
  them. The transform hands the tests of conditionals to JavaScript's \<open>eval\<close>: the
  engine that runs them is a parameter, and the tests that need nothing but the
  language's rules for literals, variables and comparisons are computed.
\<close>

section \<open>JavaScript values\<close>

text \<open>
  The values that occur as fields of syntax-tree nodes, as properties of imported
  namespace objects, as global variables and as results of the evaluated test of a
  conditional. \<open>VNum\<close> is a number that is an integer; \<open>VObj\<close> is a plain object, the
  list of its own data properties, with \<open>Object.prototype\<close> as its prototype. Every
  other primitive value (a fraction, \<open>NaN\<close>, an infinity, the negative zero, a big
  integer, a symbol) is a \<open>VOther\<close>, known by whether it is truthy and by a name;
  every other object (a function, a regular expression, an object with accessors or
  with another prototype) is a \<open>VRef\<close>, known by a name.
\<close>

datatype jsval =
    VUndefined
  | VNull
  | VBool bool
  | VNum int
  | VStr string
  | VOther bool nat
  | VObj "(string \<times> jsval) list"
  | VRef nat

text \<open>JavaScript's \<open>ToBoolean\<close>.\<close>

fun truthy :: "jsval \<Rightarrow> bool" where
  "truthy VUndefined = False"
| "truthy VNull = False"
| "truthy (VBool b) = b"
| "truthy (VNum n) = (n \<noteq> 0)"
| "truthy (VStr x) = (x \<noteq> [])"
| "truthy (VOther t k) = t"
| "truthy (VObj ps) = True"
| "truthy (VRef k) = True"

fun primitive :: "jsval \<Rightarrow> bool" where
  "primitive (VObj ps) = False"
| "primitive (VRef k) = False"
| "primitive v = True"

text \<open>
  Everything that can stop a transform: an exception, thrown by the evaluated test, by
  the text patcher or by a property read on \<open>undefined\<close>; and an evaluated test that
  does not return, so that the transform does not return either.
\<close>

datatype error = Threw string | Hangs

section \<open>The interop helper\<close>

text \<open>
  A property read \<open>ex.name\<close> on an imported namespace object. A module namespace has no
  prototype, so a missing property reads as \<open>undefined\<close>.
\<close>

definition getProp :: "(string \<times> jsval) list \<Rightarrow> string \<Rightarrow> jsval" where
  "getProp ex name = (case map_of ex name of Some v \<Rightarrow> v | None \<Rightarrow> VUndefined)"

text \<open>
  The function \<open>__interopImport\<close> that the transform of \<open>src/unnamed/part_000\<close> emits:
  \<^verbatim>\<open>if (ex.__esModule) return ex; if (ex.default !== undefined) return ex.default; return ex;\<close>
\<close>

definition interopImport :: "(string \<times> jsval) list \<Rightarrow> jsval" where
  "interopImport ex =
     (if truthy (getProp ex ''__esModule'') then VObj ex
      else if getProp ex ''default'' \<noteq> VUndefined then getProp ex ''default''
      else VObj ex)"

text \<open>
  The function \<open>__interopImport\<close> that the transform of \<open>src/index.js\<close> emits:
  \<^verbatim>\<open>if (ex.default) { return ex.default; } else { return ex; }\<close>
\<close>

definition interopImport_index :: "(string \<times> jsval) list \<Rightarrow> jsval" where
  "interopImport_index ex =
     (if truthy (getProp ex ''default'') then getProp ex ''default'' else VObj ex)"

section \<open>Syntax trees\<close>

text \<open>
  A node of the parser's tree: its \<open>type\<close>, its \<open>start\<close> and \<open>end\<close> offsets, its
  fields that hold plain values (\<open>name\<close>, \<open>value\<close>, \<open>operator\<close>), and its child nodes in
  the order of the keys that hold them, each with its key. The elements of an array
  field (\<open>body\<close>, \<open>arguments\<close>, \<open>declarations\<close>) are consecutive children under the same
  key; a field that is \<open>null\<close> or missing has no child. The walker visits exactly the
  children, in this order.

  Two nodes are the same object when they sit at the same position of the tree: a node
  is identified by its path, the list of child indices that leads to it from the root.
\<close>

datatype node = Node
  (ntype: string) (nstart: nat) (nend: nat)
  (nattrs: "(string \<times> jsval) list")
  (nkids: "(string \<times> node) list")

type_synonym path = "nat list"

definition attr :: "node \<Rightarrow> string \<Rightarrow> jsval option" where
  "attr n k = map_of (nattrs n) k"

text \<open>\<open>n.name\<close> when it is a string.\<close>

definition nname :: "node \<Rightarrow> string option" where
  "nname n = (case attr n ''name'' of Some (VStr x) \<Rightarrow> Some x | _ \<Rightarrow> None)"

text \<open>The child held by a single-node field, with its index among the children.\<close>

fun kidFrom :: "nat \<Rightarrow> (string \<times> node) list \<Rightarrow> string \<Rightarrow> (nat \<times> node) option" where
  "kidFrom i [] k = None"
| "kidFrom i ((k', c) # ks) k = (if k' = k then Some (i, c) else kidFrom (Suc i) ks k)"

definition kidAt :: "node \<Rightarrow> string \<Rightarrow> (nat \<times> node) option" where
  "kidAt n k = kidFrom 0 (nkids n) k"

definition kid :: "node \<Rightarrow> string \<Rightarrow> node option" where
  "kid n k = map_of (nkids n) k"

text \<open>The elements of an array field.\<close>

definition kidsOf :: "node \<Rightarrow> string \<Rightarrow> node list" where
  "kidsOf n k = map snd (filter (\<lambda>kc. fst kc = k) (nkids n))"

text \<open>The node at a path below a node.\<close>

fun nodeAt :: "node \<Rightarrow> path \<Rightarrow> node option" where
  "nodeAt n [] = Some n"
| "nodeAt n (i # q) = (if i < length (nkids n) then nodeAt (snd (nkids n ! i)) q else None)"

lemma kid_size:
  "(k, c) \<in> set ks \<Longrightarrow> size c < Suc (size_list (size_prod (\<lambda>_. 0) size) ks)"
  by (induction ks) auto

lemma map_of_kid_size: "map_of (nkids n) k = Some c \<Longrightarrow> size c < size n"
  by (cases n) (auto dest!: map_of_SomeD kid_size)

lemma kid_smaller: "kid n k = Some c \<Longrightarrow> size c < size n"
  by (simp add: kid_def map_of_kid_size)

lemma kids_smaller: "size_list (size_prod (\<lambda>_. 0) size) (nkids n) < size n"
  by (cases n) simp

section \<open>The text patcher\<close>

text \<open>
  \<open>MagicString\<close>, the library the transform queues its edits on, as far as the
  transform uses it: \<open>overwrite\<close>, \<open>prepend\<close>, \<open>append\<close> and \<open>toString\<close>. The original
  text is cut into chunks; an overwrite cuts at both ends of its range, puts the new
  content into the first chunk of the range and empties the others. Source-map
  locations are not part of the model.
\<close>

record chunk =
  cstart :: nat
  cend :: nat
  content :: string
  edited :: bool

record magicstring =
  original :: string
  intro :: string
  outro :: string
  chunks :: "chunk list"

definition newMagicString :: "string \<Rightarrow> magicstring" where
  "newMagicString code =
     \<lparr>original = code, intro = [], outro = [],
      chunks = [\<lparr>cstart = 0, cend = length code, content = code, edited = False\<rparr>]\<rparr>"

definition slice :: "string \<Rightarrow> nat \<Rightarrow> nat \<Rightarrow> string" where
  "slice x a b = take (b - a) (drop a x)"

text \<open>\<open>this.intro = content + this.intro\<close>\<close>

definition prepend :: "string \<Rightarrow> magicstring \<Rightarrow> magicstring" where
  "prepend c ms = ms\<lparr>intro := c @ intro ms\<rparr>"

text \<open>\<open>this.outro += content\<close>\<close>

definition append_ms :: "string \<Rightarrow> magicstring \<Rightarrow> magicstring" where
  "append_ms c ms = ms\<lparr>outro := outro ms @ c\<rparr>"

definition toString :: "magicstring \<Rightarrow> string" where
  "toString ms = intro ms @ concat (map content (chunks ms)) @ outro ms"

text \<open>
  Cutting at an offset: nothing to do at a chunk boundary; a chunk with edited,
  non-empty content cannot be cut.
\<close>

fun splitChunks :: "string \<Rightarrow> nat \<Rightarrow> chunk list \<Rightarrow> error + chunk list" where
  "splitChunks orig i [] = Inr []"
| "splitChunks orig i (c # cs) =
     (if cstart c < i \<and> i < cend c then
        (if edited c \<and> content c \<noteq> [] then
           Inl (Threw ''Cannot split a chunk that has already been edited'')
         else if edited c then
           Inr (\<lparr>cstart = cstart c, cend = i, content = [], edited = True\<rparr>
                # \<lparr>cstart = i, cend = cend c, content = [], edited = True\<rparr> # cs)
         else
           Inr (\<lparr>cstart = cstart c, cend = i, content = slice orig (cstart c) i, edited = False\<rparr>
                # \<lparr>cstart = i, cend = cend c, content = slice orig i (cend c), edited = False\<rparr>
                # cs))
      else (case splitChunks orig i cs of Inl e \<Rightarrow> Inl e | Inr cs' \<Rightarrow> Inr (c # cs')))"

definition edit :: "nat \<Rightarrow> nat \<Rightarrow> string \<Rightarrow> chunk \<Rightarrow> chunk" where
  "edit a b c ch =
     (if cstart ch = a then ch\<lparr>content := c, edited := True\<rparr>
      else if a < cstart ch \<and> cstart ch < b then ch\<lparr>content := [], edited := True\<rparr>
      else ch)"

definition overwrite :: "nat \<Rightarrow> nat \<Rightarrow> string \<Rightarrow> magicstring \<Rightarrow> error + magicstring" where
  "overwrite a b c ms =
     (if length (original ms) < b then Inl (Threw ''end is out of bounds'')
      else if b \<le> a then Inl (Threw ''Cannot overwrite a zero-length range'')
      else (case splitChunks (original ms) a (chunks ms) of
              Inl e \<Rightarrow> Inl e
            | Inr cs1 \<Rightarrow>
                (case splitChunks (original ms) b cs1 of
                   Inl e \<Rightarrow> Inl e
                 | Inr cs2 \<Rightarrow> Inr (ms\<lparr>chunks := map (edit a b c) cs2\<rparr>))))"

section \<open>Static evaluation of a conditional's test\<close>

text \<open>
  The transform decides which branch of an \<open>if\<close> statement fires by running
  \<^verbatim>\<open>(function () { var branch; if (TEST) branch = 0; else branch = 1; return branch; })()\<close>
  through \<open>eval\<close>, where \<open>TEST\<close> is the statement's own test, regenerated from the tree.
  The test is arbitrary JavaScript. Its meaning is computed here for literals,
  identifiers, non-computed member reads on plain objects, plain assignments to
  identifiers and the comparison operators on primitive values; for everything else
  it is whatever the JavaScript engine that runs the transform makes of it. The
  engine is a parameter of the model:

  \<^item> \<open>operate\<close> is the result of a binary operator on two primitive values, where it
    is not computed here: the value, or the name of the exception. Operators on
    primitive values run no code of the program, so this is a function of the operator
    and the operands alone.
  \<^item> \<open>evaluate\<close> is the outcome of any other expression in a state: it can return a
    value and change the marker and the global variables, throw, or not return.
  \<^item> \<open>textOf\<close> is the string a value turns into, where it is not computed here.

  The state of an evaluation is the marker \<open>branch\<close> and the global variables of the
  process that runs the transform. A test that changes the variables of the transform
  itself, or the tree, is not described by any engine.
\<close>

type_synonym scope = "(string \<times> jsval) list"

record engine =
  operate :: "string \<Rightarrow> jsval \<Rightarrow> jsval \<Rightarrow> string + jsval"
  evaluate :: "node \<Rightarrow> jsval \<times> scope \<Rightarrow> error + (jsval \<times> jsval \<times> scope)"
  textOf :: "jsval \<Rightarrow> string"

text \<open>
  The \<open>eval\<close> is a direct one in sloppy mode: an identifier that is not bound anywhere
  throws a \<open>ReferenceError\<close> when read and becomes a global variable when assigned. The
  names below are bound in the scopes that enclose the \<open>eval\<close> call, or are constants
  of the language; what a test does with one of them is left to the engine, except
  that \<open>undefined\<close> reads as the value of that name.
\<close>

definition lexicalNames :: "string list" where
  "lexicalNames =
     [''path'', ''estree'', ''MagicString'', ''astring'', ''findTopLevelDeclaration'',
      ''findNodeInAst'', ''exportNames'', ''module'', ''exports'', ''require'',
      ''__filename'', ''__dirname'', ''options'', ''code'', ''id'', ''importIndex'',
      ''isESModule'', ''hasExports'', ''hasImports'', ''hasESDefaultExport'', ''exported'',
      ''s'', ''ast'', ''ancestors'', ''node'', ''parent'', ''index'', ''shouldInclude'',
      ''consequent'', ''alternate'', ''branchToCheck'', ''found'',
      ''arguments'', ''eval'', ''undefined'', ''NaN'', ''Infinity'']"

text \<open>
  The properties every plain object inherits from \<open>Object.prototype\<close>; a read of
  any other property that the object does not have gives \<open>undefined\<close>.
\<close>

definition inheritedNames :: "string list" where
  "inheritedNames =
     [''constructor'', ''hasOwnProperty'', ''isPrototypeOf'', ''propertyIsEnumerable'',
      ''toLocaleString'', ''toString'', ''valueOf'', ''__proto__'', ''__defineGetter__'',
      ''__defineSetter__'', ''__lookupGetter__'', ''__lookupSetter__'']"

text \<open>
  A number is exact, and printed with all its digits, when it is an integer of at most
  \<open>2 ^ 53\<close> in absolute value.
\<close>

definition safeInteger :: "int \<Rightarrow> bool" where
  "safeInteger k = (\<bar>k\<bar> \<le> 2 ^ 53)"

text \<open>
  \<open>ToNumber\<close> on a primitive value, as far as it is computed here: \<open>undefined\<close> is
  \<open>NaN\<close>, \<open>null\<close> is \<open>0\<close>, \<open>false\<close> and \<open>true\<close> are \<open>0\<close> and \<open>1\<close>, the empty string is \<open>0\<close>,
  and a string of decimal digits with an optional sign is the integer it denotes, when
  that is exact.
\<close>

datatype numeric = Exactly int | NotANumber | Unspecified

definition isDigit :: "char \<Rightarrow> bool" where
  "isDigit c = (48 \<le> (of_char c :: nat) \<and> (of_char c :: nat) \<le> 57)"

definition decimal :: "string \<Rightarrow> nat option" where
  "decimal x =
     (if x \<noteq> [] \<and> list_all isDigit x
      then Some (foldl (\<lambda>a c. 10 * a + (of_char c - 48)) 0 x)
      else None)"

definition integerOf :: "string \<Rightarrow> int option" where
  "integerOf x =
     (if x = [] then Some 0
      else (case (if hd x = CHR ''-'' then (True, tl x)
                  else if hd x = CHR ''+'' then (False, tl x)
                  else (False, x)) of
              (negative, ds) \<Rightarrow>
                (case decimal ds of
                   None \<Rightarrow> None
                 | Some k \<Rightarrow>
                     if safeInteger (int k) then Some (if negative then - int k else int k)
                     else None)))"

fun toNumber :: "jsval \<Rightarrow> numeric" where
  "toNumber VUndefined = NotANumber"
| "toNumber VNull = Exactly 0"
| "toNumber (VBool b) = Exactly (if b then 1 else 0)"
| "toNumber (VNum k) = Exactly k"
| "toNumber (VStr x) = (case integerOf x of Some k \<Rightarrow> Exactly k | None \<Rightarrow> Unspecified)"
| "toNumber v = Unspecified"

text \<open>A primitive value that is described in full.\<close>

fun described :: "jsval \<Rightarrow> bool" where
  "described (VOther t k) = False"
| "described (VObj ps) = False"
| "described (VRef k) = False"
| "described v = True"

text \<open>Comparison of strings by code units.\<close>

fun strLess :: "string \<Rightarrow> string \<Rightarrow> bool" where
  "strLess [] [] = False"
| "strLess [] (y # ys) = True"
| "strLess (x # xs) [] = False"
| "strLess (x # xs) (y # ys) =
     ((of_char x :: nat) < of_char y \<or> (x = y \<and> strLess xs ys))"

text \<open>
  The abstract relational comparison \<open>l < r\<close>: two strings are compared as strings,
  any other two values as numbers; the inner \<open>None\<close> is the answer \<open>undefined\<close> that a
  \<open>NaN\<close> gives. The outer \<open>None\<close> means that the answer is not computed here.
\<close>

definition isLessThan :: "jsval \<Rightarrow> jsval \<Rightarrow> bool option option" where
  "isLessThan l r =
     (if \<not> described l \<or> \<not> described r then None
      else (case (l, r) of
              (VStr a, VStr b) \<Rightarrow> Some (Some (strLess a b))
            | _ \<Rightarrow>
                (case (toNumber l, toNumber r) of
                   (Exactly a, Exactly b) \<Rightarrow> Some (Some (a < b))
                 | (NotANumber, _) \<Rightarrow> Some None
                 | (_, NotANumber) \<Rightarrow> Some None
                 | _ \<Rightarrow> None)))"

text \<open>\<open>l < r\<close> and \<open>l <= r\<close>, which is \<open>r < l\<close> answered neither \<open>true\<close> nor \<open>undefined\<close>.\<close>

definition jsLess :: "jsval \<Rightarrow> jsval \<Rightarrow> bool option" where
  "jsLess l r = map_option (\<lambda>a. a = Some True) (isLessThan l r)"

definition jsLessEq :: "jsval \<Rightarrow> jsval \<Rightarrow> bool option" where
  "jsLessEq l r = map_option (\<lambda>a. a = Some False) (isLessThan r l)"

text \<open>
  \<open>l == r\<close>: \<open>null\<close> and \<open>undefined\<close> equal each other and nothing else; two strings are
  compared as they are; a boolean, a number and a string are compared as numbers.
\<close>

definition nullish :: "jsval \<Rightarrow> bool" where
  "nullish v = (v = VUndefined \<or> v = VNull)"

definition looseEq :: "jsval \<Rightarrow> jsval \<Rightarrow> bool option" where
  "looseEq l r =
     (if \<not> described l \<or> \<not> described r then None
      else if nullish l \<or> nullish r then Some (nullish l \<and> nullish r)
      else (case (l, r) of
              (VStr a, VStr b) \<Rightarrow> Some (a = b)
            | _ \<Rightarrow>
                (case (toNumber l, toNumber r) of
                   (Exactly a, Exactly b) \<Rightarrow> Some (a = b)
                 | _ \<Rightarrow> None)))"

text \<open>\<open>l === r\<close>\<close>

definition strictEq :: "jsval \<Rightarrow> jsval \<Rightarrow> bool option" where
  "strictEq l r = (if described l \<and> described r then Some (l = r) else None)"

text \<open>The comparison operators on two primitive values.\<close>

definition binop :: "string \<Rightarrow> jsval \<Rightarrow> jsval \<Rightarrow> jsval option" where
  "binop operator l r =
     (if operator = ''==='' then map_option VBool (strictEq l r)
      else if operator = ''!=='' then map_option (\<lambda>b. VBool (\<not> b)) (strictEq l r)
      else if operator = ''=='' then map_option VBool (looseEq l r)
      else if operator = ''!='' then map_option (\<lambda>b. VBool (\<not> b)) (looseEq l r)
      else if operator = ''<'' then map_option VBool (jsLess l r)
      else if operator = ''>'' then map_option VBool (jsLess r l)
      else if operator = ''<='' then map_option VBool (jsLessEq l r)
      else if operator = ''>='' then map_option VBool (jsLessEq r l)
      else None)"

text \<open>
  A binary operator on two primitive values: \<open>in\<close> and \<open>instanceof\<close> throw, a
  comparison is computed where it can be, and the engine gives the rest.
\<close>

definition applyOperator :: "engine \<Rightarrow> string \<Rightarrow> jsval \<Rightarrow> jsval \<Rightarrow> string + jsval" where
  "applyOperator e operator l r =
     (if operator = ''in'' \<or> operator = ''instanceof'' then Inl ''TypeError''
      else (case binop operator l r of
              Some v \<Rightarrow> Inr v
            | None \<Rightarrow> operate e operator l r))"

text \<open>
  The value of an expression and the state after it; the state is the marker and the
  global variables.
\<close>

function evalExpr :: "engine \<Rightarrow> node \<Rightarrow> jsval \<times> scope \<Rightarrow> error + (jsval \<times> jsval \<times> scope)" where
  "evalExpr e n st =
     (if ntype n = ''Literal'' then
        (case attr n ''value'' of
           Some v \<Rightarrow> if primitive v then Inr (v, st) else evaluate e n st
         | None \<Rightarrow> evaluate e n st)
      else if ntype n = ''Identifier'' then
        (case nname n of
           None \<Rightarrow> evaluate e n st
         | Some x \<Rightarrow>
             if x = ''branch'' then Inr (fst st, st)
             else if x = ''undefined'' then Inr (VUndefined, st)
             else if x \<in> set lexicalNames then evaluate e n st
             else (case map_of (snd st) x of
                     Some v \<Rightarrow> Inr (v, st)
                   | None \<Rightarrow> Inl (Threw ''ReferenceError'')))
      else if ntype n = ''MemberExpression'' then
        (if attr n ''computed'' \<noteq> Some (VBool False) \<or> attr n ''optional'' = Some (VBool True)
         then evaluate e n st
         else (case kid n ''object'' of
           None \<Rightarrow> evaluate e n st
         | Some obj \<Rightarrow>
             (case (case kid n ''property'' of
                      None \<Rightarrow> None
                    | Some p \<Rightarrow> if ntype p = ''Identifier'' then nname p else None) of
                None \<Rightarrow> evaluate e n st
              | Some x \<Rightarrow>
                  (case evalExpr e obj st of
                     Inl err \<Rightarrow> Inl err
                   | Inr (ov, st') \<Rightarrow>
                       (case ov of
                          VUndefined \<Rightarrow> Inl (Threw ''TypeError'')
                        | VNull \<Rightarrow> Inl (Threw ''TypeError'')
                        | VObj ps \<Rightarrow>
                            (case map_of ps x of
                               Some v \<Rightarrow> Inr (v, st')
                             | None \<Rightarrow>
                                 if x \<in> set inheritedNames then evaluate e n st
                                 else Inr (VUndefined, st'))
                        | _ \<Rightarrow> evaluate e n st)))))
      else if ntype n = ''AssignmentExpression'' then
        (if attr n ''operator'' \<noteq> Some (VStr ''='') then evaluate e n st
         else (case kid n ''left'' of
           None \<Rightarrow> evaluate e n st
         | Some l \<Rightarrow>
             (if ntype l \<noteq> ''Identifier'' then evaluate e n st
              else (case nname l of
                None \<Rightarrow> evaluate e n st
              | Some x \<Rightarrow>
                  if x \<noteq> ''branch'' \<and> x \<in> set lexicalNames then evaluate e n st
                  else (case kid n ''right'' of
                     None \<Rightarrow> evaluate e n st
                   | Some r \<Rightarrow>
                       (case evalExpr e r st of
                          Inl err \<Rightarrow> Inl err
                        | Inr (v, (m, g)) \<Rightarrow>
                            if x = ''branch'' then Inr (v, (v, g))
                            else Inr (v, (m, AList.update x v g))))))))
      else if ntype n = ''BinaryExpression'' then
        (case attr n ''operator'' of
           Some (VStr operator) \<Rightarrow>
             (case kid n ''left'' of
                None \<Rightarrow> evaluate e n st
              | Some l \<Rightarrow>
                  (case kid n ''right'' of
                     None \<Rightarrow> evaluate e n st
                   | Some r \<Rightarrow>
                       (case evalExpr e l st of
                          Inl err \<Rightarrow> Inl err
                        | Inr (lv, st1) \<Rightarrow>
                            (case evalExpr e r st1 of
                               Inl err \<Rightarrow> Inl err
                             | Inr (rv, st2) \<Rightarrow>
                                 if primitive lv \<and> primitive rv then
                                   (case applyOperator e operator lv rv of
                                      Inl x \<Rightarrow> Inl (Threw x)
                                    | Inr v \<Rightarrow> Inr (v, st2))
                                 else evaluate e n st))))
         | _ \<Rightarrow> evaluate e n st)
      else evaluate e n st)"
  by pat_completeness auto
termination
  by (relation "measure (\<lambda>(e, n, st). size n)") (auto dest: kid_smaller)

declare evalExpr.simps [simp del]

text \<open>
  The fragment as a whole: the branches of the statement are replaced by
  \<open>branch = 0\<close> and \<open>branch = 1\<close>, so the result is the number of the branch the test
  selects, together with the global variables the test leaves behind.
\<close>

definition evalBranch :: "engine \<Rightarrow> node \<Rightarrow> scope \<Rightarrow> error + (nat \<times> scope)" where
  "evalBranch e parent g =
     (case kid parent ''test'' of
        None \<Rightarrow> Inl (Threw ''TypeError'')
      | Some t \<Rightarrow>
          (case evalExpr e t (VUndefined, g) of
             Inl err \<Rightarrow> Inl err
           | Inr (v, (m, g')) \<Rightarrow> Inr (if truthy v then 0 else 1, g')))"

section \<open>The walk over the tree\<close>

text \<open>
  The walker calls \<open>enter\<close> on every node in depth-first order, parents before children.
  \<open>enter\<close> pushes the node on \<open>ancestors\<close> when it is done and \<open>leave\<close> pops it, so when a
  node is entered \<open>ancestors\<close> holds the chain from the root down to its parent. A visit
  is that chain, the path of the node, and the node.
\<close>

type_synonym ancestor = "path \<times> node"

type_synonym visit = "ancestor list \<times> path \<times> node"

function visits :: "ancestor list \<Rightarrow> path \<Rightarrow> node \<Rightarrow> visit list"
  and visitKids :: "ancestor list \<Rightarrow> path \<Rightarrow> nat \<Rightarrow> (string \<times> node) list \<Rightarrow> visit list" where
  "visits anc p n = (anc, p, n) # visitKids (anc @ [(p, n)]) p 0 (nkids n)"
| "visitKids anc p i [] = []"
| "visitKids anc p i (kc # ks) = visits anc (p @ [i]) (snd kc) @ visitKids anc p (Suc i) ks"
  by pat_completeness auto
termination
  by (relation "measure (\<lambda>x. case x of
          Inl (anc, p, n) \<Rightarrow> size n
        | Inr (anc, p, i, ks) \<Rightarrow> size_list (size_prod (\<lambda>_. 0) size) ks)")
     (auto simp: kids_smaller)

declare visits.simps [simp del]

text \<open>The paths of a node and of everything below it, in the order of the walk.\<close>

function nodePaths :: "path \<Rightarrow> node \<Rightarrow> path list"
  and kidPaths :: "path \<Rightarrow> nat \<Rightarrow> (string \<times> node) list \<Rightarrow> path list" where
  "nodePaths p n = p # kidPaths p 0 (nkids n)"
| "kidPaths p i [] = []"
| "kidPaths p i (kc # ks) = nodePaths (p @ [i]) (snd kc) @ kidPaths p (Suc i) ks"
  by pat_completeness auto
termination
  by (relation "measure (\<lambda>x. case x of
          Inl (p, n) \<Rightarrow> size n
        | Inr (p, i, ks) \<Rightarrow> size_list (size_prod (\<lambda>_. 0) size) ks)")
     (auto simp: kids_smaller)

declare nodePaths.simps [simp del]

text \<open>
  \<open>findNodeInAst (ast, target)\<close>: walk \<open>ast\<close> and report whether \<open>target\<close> is one of the
  nodes met. Walking \<open>undefined\<close> (a missing \<open>else\<close> branch) meets no node.
\<close>

definition findNodeInAst :: "(path \<times> node) option \<Rightarrow> path \<Rightarrow> bool" where
  "findNodeInAst ast target =
     (case ast of None \<Rightarrow> False | Some (bp, bn) \<Rightarrow> target \<in> set (nodePaths bp bn))"

section \<open>The state of one transform\<close>

record analysis =
  importIndex :: nat
  isESModule :: bool
  hasExports :: bool
  hasImports :: bool
  hasESDefaultExport :: bool
  exported :: "string list"
  s :: magicstring
  globals :: scope

definition initial :: "string \<Rightarrow> scope \<Rightarrow> analysis" where
  "initial code g =
     \<lparr>importIndex = 0, isESModule = False, hasExports = False, hasImports = False,
      hasESDefaultExport = False, exported = [], s = newMagicString code, globals = g\<rparr>"

section \<open>Texts the transform emits\<close>

definition newline :: string where
  "newline = [CHR 0x0A]"

definition spaces :: "nat \<Rightarrow> string" where
  "spaces k = replicate k (CHR '' '')"

definition digit :: "nat \<Rightarrow> char" where
  "digit d = char_of (of_char (CHR ''0'') + d)"

fun showNat :: "nat \<Rightarrow> string" where
  "showNat k = (if k < 10 then [digit k] else showNat (k div 10) @ [digit (k mod 10)])"

declare showNat.simps [simp del]

text \<open>
  The string a template literal puts in place of a value. An integer beyond \<open>2 ^ 53\<close>
  is printed with the fewest digits that tell it from its neighbours, or with an
  exponent, and an object by its own \<open>toString\<close>: these are the engine's.
\<close>

fun toStr :: "engine \<Rightarrow> jsval \<Rightarrow> string" where
  "toStr e VUndefined = ''undefined''"
| "toStr e VNull = ''null''"
| "toStr e (VBool b) = (if b then ''true'' else ''false'')"
| "toStr e (VNum k) =
     (if safeInteger k
      then (if k < 0 then CHR ''-'' # showNat (nat (- k)) else showNat (nat k))
      else textOf e (VNum k))"
| "toStr e (VStr x) = x"
| "toStr e v = textOf e v"

fun join :: "string \<Rightarrow> string list \<Rightarrow> string" where
  "join sep [] = []"
| "join sep [x] = x"
| "join sep (x # y # ys) = x @ sep @ join sep (y # ys)"

definition tempImportName :: "nat \<Rightarrow> string" where
  "tempImportName k = ''__require__import__'' @ showNat k"

definition interopCall :: "string \<Rightarrow> string" where
  "interopCall tmp = ''__interopImport('' @ tmp @ '')''"

definition importStatement :: "string \<Rightarrow> string \<Rightarrow> string" where
  "importStatement tmp importee =
     ''import * as '' @ tmp @ '' from '' @ [CHR 0x27] @ importee @ [CHR 0x27] @ '';''"

definition interopHelper :: string where
  "interopHelper =
     newline @ spaces 20 @ ''function __interopImport(ex) {''
     @ newline @ spaces 24 @ ''if (ex.__esModule) {''
     @ newline @ spaces 28 @ ''return ex;''
     @ newline @ spaces 24 @ ''}''
     @ newline
     @ newline @ spaces 24 @ ''if (ex.default !== undefined) {''
     @ newline @ spaces 28 @ ''return ex.default;''
     @ newline @ spaces 24 @ ''} ''
     @ newline
     @ newline @ spaces 24 @ ''return ex;''
     @ newline @ spaces 20 @ ''}''
     @ newline @ spaces 16"

definition exportsDeclaration :: string where
  "exportsDeclaration = ''var __exports = {};''"

definition defaultExportESM :: string where
  "defaultExportESM = '';'' @ newline @ ''export default __exports.default;''"

definition defaultExportCJS :: string where
  "defaultExportCJS = '';'' @ newline @ ''export default __exports;''"

definition markerExport :: string where
  "markerExport = '';'' @ newline @ ''var __esModule = true; export { __esModule };''"

definition reexportText :: "string list \<Rightarrow> string" where
  "reexportText topLevelNames =
     newline @ spaces 12 @ ''export { '' @ join '', '' topLevelNames @ '' };''
     @ newline @ spaces 8"

definition exportVar :: "string \<Rightarrow> string" where
  "exportVar ex = ''export var '' @ ex @ '' = __exports.'' @ ex @ '';''"

definition synthesizedText :: "string list \<Rightarrow> string" where
  "synthesizedText otherNames =
     newline @ spaces 12 @ join '' '' (map exportVar otherNames) @ newline @ spaces 8"

section \<open>The require rewriter\<close>

text \<open>
  The loop \<open>ancestors.some (...)\<close> that computes \<open>shouldInclude\<close> for one \<open>require\<close> call:
  it goes through the ancestors from the root down and stops at the first
  \<open>IfStatement\<close> whose test is a \<open>BinaryExpression\<close>. The result also carries the
  global variables as the evaluated test leaves them.
\<close>

fun someAncestors ::
  "engine \<Rightarrow> ancestor list \<Rightarrow> path \<Rightarrow> scope \<Rightarrow> error + (bool \<times> scope)" where
  "someAncestors e [] target g = Inr (True, g)"
| "someAncestors e ((pp, parent) # rest) target g =
     (if ntype parent = ''IfStatement'' then
        (case kid parent ''test'' of
           None \<Rightarrow> Inl (Threw ''TypeError'')
         | Some t \<Rightarrow>
             if ntype t = ''BinaryExpression'' then
               (case evalBranch e parent g of
                  Inl err \<Rightarrow> Inl err
                | Inr (branch, g') \<Rightarrow>
                    let branchToCheck =
                          map_option (\<lambda>(i, c). (pp @ [i], c))
                            (if branch = 0 then kidAt parent ''consequent''
                             else kidAt parent ''alternate'')
                    in Inr (findNodeInAst branchToCheck target, g'))
             else someAncestors e rest target g)
      else someAncestors e rest target g)"

text \<open>The body of \<open>if (shouldInclude)\<close>.\<close>

definition includeRequire :: "engine \<Rightarrow> node \<Rightarrow> node \<Rightarrow> analysis \<Rightarrow> error + analysis" where
  "includeRequire e n arg st =
     (let importee = toStr e (case attr arg ''value'' of Some v \<Rightarrow> v | None \<Rightarrow> VUndefined);
          tmp = tempImportName (importIndex st)
      in case overwrite (nstart n) (nend n) (interopCall tmp) (s st) of
           Inl err \<Rightarrow> Inl err
         | Inr m \<Rightarrow>
             Inr (st\<lparr>importIndex := Suc (importIndex st),
                     s := prepend (importStatement tmp importee) m,
                     hasImports := True\<rparr>))"

definition handleCall :: "engine \<Rightarrow> visit \<Rightarrow> analysis \<Rightarrow> error + analysis" where
  "handleCall e v st =
     (case v of (anc, p, n) \<Rightarrow>
        if ntype n \<noteq> ''CallExpression'' then Inr st
        else (case kid n ''callee'' of
                None \<Rightarrow> Inl (Threw ''TypeError'')
              | Some callee \<Rightarrow>
                  if nname callee \<noteq> Some ''require'' then Inr st
                  else (case kidsOf n ''arguments'' of
                          [arg] \<Rightarrow>
                            if ntype arg = ''Literal'' then
                              (case someAncestors e anc p (globals st) of
                                 Inl err \<Rightarrow> Inl err
                               | Inr (shouldInclude, g') \<Rightarrow>
                                   if shouldInclude
                                   then includeRequire e n arg (st\<lparr>globals := g'\<rparr>)
                                   else Inr (st\<lparr>globals := g'\<rparr>))
                            else Inr st
                        | _ \<Rightarrow> Inr st)))"

section \<open>The export rewriter\<close>

definition rewriteTo :: "node \<Rightarrow> analysis \<Rightarrow> error + analysis" where
  "rewriteTo target st =
     (case overwrite (nstart target) (nend target) ''__exports'' (s st) of
        Inl e \<Rightarrow> Inl e
      | Inr m \<Rightarrow> Inr (st\<lparr>hasExports := True, s := m\<rparr>))"

text \<open>\<open>module.exports = ...\<close> and \<open>module['exports'] = ...\<close>\<close>

definition moduleExports :: "node \<Rightarrow> analysis \<Rightarrow> error + analysis" where
  "moduleExports left st =
     (if (case kid left ''object'' of Some ob \<Rightarrow> nname ob = Some ''module'' | None \<Rightarrow> False)
         \<and> (case kid left ''property'' of
               Some pr \<Rightarrow> nname pr = Some ''exports'' \<or> attr pr ''value'' = Some (VStr ''exports'')
             | None \<Rightarrow> False)
      then rewriteTo left st
      else Inr st)"

text \<open>\<open>exports.NAME = ...\<close>\<close>

definition exportsMember :: "node \<Rightarrow> analysis \<Rightarrow> error + analysis" where
  "exportsMember left st =
     (case kid left ''object'' of
        None \<Rightarrow> Inr st
      | Some ob \<Rightarrow>
          if nname ob = Some ''exports'' then
            (case rewriteTo ob st of
               Inl e \<Rightarrow> Inl e
             | Inr st' \<Rightarrow>
                 (case (case kid left ''property'' of None \<Rightarrow> None | Some pr \<Rightarrow> nname pr) of
                    None \<Rightarrow> Inr st'
                  | Some x \<Rightarrow>
                      if x \<noteq> [] then Inr (st'\<lparr>exported := exported st' @ [x]\<rparr>) else Inr st'))
          else Inr st)"

definition handleAssignment :: "visit \<Rightarrow> analysis \<Rightarrow> error + analysis" where
  "handleAssignment v st =
     (case v of (anc, p, n) \<Rightarrow>
        if ntype n \<noteq> ''AssignmentExpression'' then Inr st
        else (case kid n ''left'' of
                None \<Rightarrow> Inl (Threw ''TypeError'')
              | Some left \<Rightarrow>
                  if ntype left \<noteq> ''MemberExpression'' then Inr st
                  else (case moduleExports left st of
                          Inl e \<Rightarrow> Inl e
                        | Inr st' \<Rightarrow> exportsMember left st')))"

text \<open>
  The bare identifier \<open>exports\<close>: rewritten unless its parent has an \<open>object\<close> field that
  is another node.
\<close>

definition handleIdentifier :: "visit \<Rightarrow> analysis \<Rightarrow> error + analysis" where
  "handleIdentifier v st =
     (case v of (anc, p, n) \<Rightarrow>
        if ntype n = ''Identifier'' \<and> nname n = Some ''exports'' then
          (if anc = [] then Inl (Threw ''TypeError'')
           else (case last anc of (pp, parent) \<Rightarrow>
                   if (case kidAt parent ''object'' of
                         None \<Rightarrow> True
                       | Some (i, ob) \<Rightarrow> pp @ [i] = p)
                   then rewriteTo n st
                   else Inr st))
        else Inr st)"

definition handleLiteral :: "visit \<Rightarrow> analysis \<Rightarrow> analysis" where
  "handleLiteral v st =
     (case v of (anc, p, n) \<Rightarrow>
        if ntype n = ''Literal'' \<and> attr n ''value'' = Some (VStr ''__esModule'')
        then st\<lparr>isESModule := True\<rparr> else st)"

definition handleExportDefault :: "visit \<Rightarrow> analysis \<Rightarrow> analysis" where
  "handleExportDefault v st =
     (case v of (anc, p, n) \<Rightarrow>
        if ntype n = ''ExportDefaultDeclaration'' then st\<lparr>hasESDefaultExport := True\<rparr> else st)"

text \<open>The \<open>enter\<close> callback: the five tests on the node's type, in the order of the source.\<close>

definition enter :: "engine \<Rightarrow> visit \<Rightarrow> analysis \<Rightarrow> error + analysis" where
  "enter e v st =
     (case handleCall e v st of
        Inl err \<Rightarrow> Inl err
      | Inr st1 \<Rightarrow>
          (case handleAssignment v st1 of
             Inl err \<Rightarrow> Inl err
           | Inr st2 \<Rightarrow>
               (case handleIdentifier v st2 of
                  Inl err \<Rightarrow> Inl err
                | Inr st3 \<Rightarrow> Inr (handleExportDefault v (handleLiteral v st3)))))"

fun enterAll :: "engine \<Rightarrow> visit list \<Rightarrow> analysis \<Rightarrow> error + analysis" where
  "enterAll e [] st = Inr st"
| "enterAll e (v # vs) st =
     (case enter e v st of Inl err \<Rightarrow> Inl err | Inr st' \<Rightarrow> enterAll e vs st')"

text \<open>The whole walk, from the fresh state.\<close>

definition scan :: "engine \<Rightarrow> node \<Rightarrow> string \<Rightarrow> scope \<Rightarrow> error + analysis" where
  "scan e ast code g = enterAll e (visits [] [] ast) (initial code g)"

section \<open>Named exports\<close>

text \<open>
  \<open>findTopLevelDeclaration (ast, name)\<close>: some statement of the program's body is a
  variable declaration with a declarator of that name, or a function or class
  declaration of that name.
\<close>

definition declares :: "node \<Rightarrow> string \<Rightarrow> bool" where
  "declares d name = (case kid d ''id'' of Some i \<Rightarrow> nname i = Some name | None \<Rightarrow> False)"

definition findTopLevelDeclaration :: "node \<Rightarrow> string \<Rightarrow> bool" where
  "findTopLevelDeclaration ast name =
     list_ex (\<lambda>n.
        (ntype n = ''VariableDeclaration''
           \<and> list_ex (\<lambda>d. declares d name) (kidsOf n ''declarations''))
        \<or> (ntype n = ''FunctionDeclaration'' \<and> declares n name)
        \<or> (ntype n = ''ClassDeclaration'' \<and> declares n name))
       (kidsOf ast ''body'')"

text \<open>
  \<open>exportNames (ast, names, s)\<close>: the names that have a top-level declaration are
  re-exported in one statement; each of the others gets a variable that reads the
  property of that name from \<open>__exports\<close>.
\<close>

definition exportNames :: "node \<Rightarrow> string list \<Rightarrow> magicstring \<Rightarrow> magicstring" where
  "exportNames ast names m =
     (let topLevelNames = filter (\<lambda>name. findTopLevelDeclaration ast name) names;
          otherNames = filter (\<lambda>name. name \<notin> set topLevelNames) names;
          m1 = (if topLevelNames \<noteq> [] then append_ms (reexportText topLevelNames) m else m)
      in if otherNames \<noteq> [] then append_ms (synthesizedText otherNames) m1 else m1)"

text \<open>\<open>a.indexOf (e)\<close>, with \<open>None\<close> for \<open>-1\<close>.\<close>

fun indexOf :: "string list \<Rightarrow> string \<Rightarrow> nat option" where
  "indexOf [] e = None"
| "indexOf (x # xs) e = (if x = e then Some 0 else map_option Suc (indexOf xs e))"

text \<open>\<open>exported.filter ((e, i, a) => e !== 'default' && a.indexOf (e) === i)\<close>\<close>

definition candidates :: "string list \<Rightarrow> string list" where
  "candidates a =
     map snd (filter (\<lambda>(i, e). e \<noteq> ''default'' \<and> indexOf a e = Some i) (enumerate 0 a))"

section \<open>The footer and the transform\<close>

text \<open>
  \<open>String.prototype.replace\<close> with a string pattern and the empty replacement: the
  first occurrence of the pattern is removed.
\<close>

fun removeFirst :: "string \<Rightarrow> string \<Rightarrow> string" where
  "removeFirst pat [] = []"
| "removeFirst pat (c # cs) =
     (if prefix pat (c # cs) then drop (length pat) (c # cs) else c # removeFirst pat cs)"

text \<open>
  The key under which the options list the named exports of a unit:
  \<^verbatim>\<open>id.replace(process.cwd(), '').replace(/\\/g, '/').substring(1)\<close>
\<close>

definition namedExportFile :: "string \<Rightarrow> string \<Rightarrow> string" where
  "namedExportFile cwd unitId =
     drop 1 (map (\<lambda>c. if c = CHR 0x5C then CHR ''/'' else c) (removeFirst cwd unitId))"

text \<open>
  Everything after the walk: the interop helper, the declaration of \<open>__exports\<close>, the
  default export, the named exports and the marker. \<open>namedExports\<close> is the option of
  that name, a table from unit keys to lists of names; it is empty when the plugin got
  no options.
\<close>

definition emit ::
  "(string \<times> string list) list \<Rightarrow> string \<Rightarrow> node \<Rightarrow> string \<Rightarrow> analysis \<Rightarrow> magicstring" where
  "emit namedExports cwd ast unitId st =
     (let m1 = (if hasImports st then prepend interopHelper (s st) else s st)
      in if hasExports st then
           (let m2 = prepend exportsDeclaration m1;
                m3 = (if isESModule st then
                        append_ms markerExport
                          (exportNames ast (candidates (exported st))
                             (if \<not> hasESDefaultExport st then append_ms defaultExportESM m2
                              else m2))
                      else if \<not> hasESDefaultExport st then append_ms defaultExportCJS m2
                      else m2)
            in case map_of namedExports (namedExportFile cwd unitId) of
                 Some names \<Rightarrow> exportNames ast names m3
               | None \<Rightarrow> m3)
         else m1)"

text \<open>
  \<open>path.extname\<close> on a POSIX host: the text from the last dot of the last segment of the
  path, unless that dot starts the segment or the segment is \<open>..\<close>.
\<close>

definition extname :: "string \<Rightarrow> string" where
  "extname p =
     (let trimmed = rev (dropWhile (\<lambda>c. c = CHR ''/'') (rev p));
          base = rev (takeWhile (\<lambda>c. c \<noteq> CHR ''/'') (rev trimmed));
          ext = rev (takeWhile (\<lambda>c. c \<noteq> CHR ''.'') (rev base))
      in if CHR ''.'' \<notin> set base \<or> Suc (length ext) = length base \<or> base = ''..'' then []
         else CHR ''.'' # ext)"

text \<open>
  \<open>transform (code, id)\<close>. The tree is the one the host's parser returns for \<open>code\<close>;
  \<open>e\<close> is the engine that runs the transform, \<open>cwd\<close> the working directory and \<open>g\<close> the
  global variables of the process. The result is \<open>None\<close> when the unit is not a \<open>.js\<close>
  file, an error when the transform throws or does not return, and the rewritten text
  otherwise (the source map is left out).
\<close>

definition transform ::
  "engine \<Rightarrow> (string \<times> string list) list \<Rightarrow> string \<Rightarrow> scope \<Rightarrow> node \<Rightarrow> string \<Rightarrow> string
     \<Rightarrow> (error + string) option" where
  "transform e namedExports cwd g ast code unitId =
     (if extname unitId \<noteq> ''.js'' then None
      else Some (case scan e ast code g of
                   Inl err \<Rightarrow> Inl err
                 | Inr st \<Rightarrow> Inr (toString (emit namedExports cwd ast unitId st))))"

section \<open>Notions the properties are stated with\<close>

text \<open>
  A qualifying conditional: an \<open>IfStatement\<close> whose test is a \<open>BinaryExpression\<close>. An
  ancestor that the search passes over: anything else (that has the fields the parser
  gives it).
\<close>

definition qualifies :: "node \<Rightarrow> bool" where
  "qualifies parent =
     (ntype parent = ''IfStatement''
      \<and> (case kid parent ''test'' of Some t \<Rightarrow> ntype t = ''BinaryExpression'' | None \<Rightarrow> False))"

definition passedOver :: "node \<Rightarrow> bool" where
  "passedOver parent =
     (ntype parent \<noteq> ''IfStatement''
      \<or> (case kid parent ''test'' of Some t \<Rightarrow> ntype t \<noteq> ''BinaryExpression'' | None \<Rightarrow> False))"

text \<open>
  A call \<open>require (arg)\<close> that the rewriter accepts: the callee is named \<open>require\<close>, and
  there is exactly one argument, a \<open>Literal\<close>.
\<close>

definition requireLiteral :: "node \<Rightarrow> node \<Rightarrow> bool" where
  "requireLiteral n arg =
     (ntype n = ''CallExpression''
      \<and> (case kid n ''callee'' of Some c \<Rightarrow> nname c = Some ''require'' | None \<Rightarrow> False)
      \<and> kidsOf n ''arguments'' = [arg]
      \<and> ntype arg = ''Literal'')"

text \<open>
  The branch of a conditional that fired, with its path, and what it means for a node
  to lie within it: the node's path leads through the branch to a node of it.
\<close>

definition firedBranch :: "path \<Rightarrow> node \<Rightarrow> nat \<Rightarrow> (path \<times> node) option" where
  "firedBranch pp parent branch =
     map_option (\<lambda>(i, c). (pp @ [i], c))
       (kidAt parent (if branch = 0 then ''consequent'' else ''alternate''))"

definition liesWithin :: "(path \<times> node) option \<Rightarrow> path \<Rightarrow> bool" where
  "liesWithin branch p =
     (case branch of
        None \<Rightarrow> False
      | Some (bp, bn) \<Rightarrow> prefix bp p \<and> nodeAt bn (drop (length bp) p) \<noteq> None)"

text \<open>
  A test that is built from literals and binary operators only: every leaf is a
  \<open>Literal\<close> with a primitive value, every inner node a \<open>BinaryExpression\<close> with its
  operator and its two operands.
\<close>

function literalTree :: "node \<Rightarrow> bool" where
  "literalTree n =
     (if ntype n = ''Literal'' then
        (case attr n ''value'' of Some v \<Rightarrow> primitive v | None \<Rightarrow> False)
      else if ntype n = ''BinaryExpression'' then
        (case attr n ''operator'' of
           Some (VStr operator) \<Rightarrow>
             (case kid n ''left'' of
                None \<Rightarrow> False
              | Some l \<Rightarrow>
                  (case kid n ''right'' of
                     None \<Rightarrow> False
                   | Some r \<Rightarrow> literalTree l \<and> literalTree r))
         | _ \<Rightarrow> False)
      else False)"
  by pat_completeness auto
termination
  by (relation "measure size") (auto dest: kid_smaller)

declare literalTree.simps [simp del]

definition literalTest :: "node \<Rightarrow> bool" where
  "literalTest parent =
     (case kid parent ''test'' of
        None \<Rightarrow> False
      | Some t \<Rightarrow> ntype t = ''BinaryExpression'' \<and> literalTree t)"

text \<open>
  An engine whose operators give primitive values on primitive values, as those of the
  language do.
\<close>

definition closedOperators :: "engine \<Rightarrow> bool" where
  "closedOperators e =
     (\<forall>operator l r v.
        primitive l \<and> primitive r \<and> operate e operator l r = Inr v \<longrightarrow> primitive v)"



definition importee :: "engine \<Rightarrow> node \<Rightarrow> string" where
  "importee e arg = toStr e (case attr arg ''value'' of Some v \<Rightarrow> v | None \<Rightarrow> VUndefined)"






section \<open>Example units\<close>

text \<open>
  An engine for the examples. None of them consults it: their tests and the names of
  their modules are computed in full, and the walk over each of them gives the same
  state with every engine (\<open>examples_need_no_engine\<close>).
\<close>

definition bareEngine :: engine where
  "bareEngine =
     \<lparr>operate = (\<lambda>operator l r. Inr VUndefined),
      evaluate = (\<lambda>n st. Inl (Threw ''SyntaxError'')),
      textOf = (\<lambda>v. [])\<rparr>"

text \<open>A \<open>require\<close> under two nested conditionals, the outer true and the inner false.\<close>

definition nestedUnitCode :: string where
  "nestedUnitCode = ''if (1 == 1) { if (1 == 2) { require('' @ [CHR 0x27] @ ''a'' @ [CHR 0x27] @ '') } }''"

definition nestedUnit :: node where
  "nestedUnit =
     Node ''Program'' 0 44 []
      [
       (''body'',
         Node ''IfStatement'' 0 44 []
          [
           (''test'',
             Node ''BinaryExpression'' 4 10 [(''operator'', VStr ''=='')]
              [
               (''left'',
                 Node ''Literal'' 4 5 [(''value'', VNum 1)] []),
               (''right'',
                 Node ''Literal'' 9 10 [(''value'', VNum 1)] [])]),
           (''consequent'',
             Node ''BlockStatement'' 12 44 []
              [
               (''body'',
                 Node ''IfStatement'' 14 42 []
                  [
                   (''test'',
                     Node ''BinaryExpression'' 18 24 [(''operator'', VStr ''=='')]
                      [
                       (''left'',
                         Node ''Literal'' 18 19 [(''value'', VNum 1)] []),
                       (''right'',
                         Node ''Literal'' 23 24 [(''value'', VNum 2)] [])]),
                   (''consequent'',
                     Node ''BlockStatement'' 26 42 []
                      [
                       (''body'',
                         Node ''ExpressionStatement'' 28 40 []
                          [
                           (''expression'',
                             Node ''CallExpression'' 28 40 []
                              [
                               (''callee'',
                                 Node ''Identifier'' 28 35 [(''name'', VStr ''require'')] []),
                               (''arguments'',
                                 Node ''Literal'' 36 39 [(''value'', VStr ''a'')] [])])])])])])])]"

text \<open>A \<open>require\<close> whose nearest conditional tests an identifier, inside a conditional with a false comparison.\<close>

definition guardedUnitCode :: string where
  "guardedUnitCode = ''if (1 == 2) { if (x) { require('' @ [CHR 0x27] @ ''a'' @ [CHR 0x27] @ '') } }''"

definition guardedUnit :: node where
  "guardedUnit =
     Node ''Program'' 0 39 []
      [
       (''body'',
         Node ''IfStatement'' 0 39 []
          [
           (''test'',
             Node ''BinaryExpression'' 4 10 [(''operator'', VStr ''=='')]
              [
               (''left'',
                 Node ''Literal'' 4 5 [(''value'', VNum 1)] []),
               (''right'',
                 Node ''Literal'' 9 10 [(''value'', VNum 2)] [])]),
           (''consequent'',
             Node ''BlockStatement'' 12 39 []
              [
               (''body'',
                 Node ''IfStatement'' 14 37 []
                  [
                   (''test'',
                     Node ''Identifier'' 18 19 [(''name'', VStr ''x'')] []),
                   (''consequent'',
                     Node ''BlockStatement'' 21 37 []
                      [
                       (''body'',
                         Node ''ExpressionStatement'' 23 35 []
                          [
                           (''expression'',
                             Node ''CallExpression'' 23 35 []
                              [
                               (''callee'',
                                 Node ''Identifier'' 23 30 [(''name'', VStr ''require'')] []),
                               (''arguments'',
                                 Node ''Literal'' 31 34 [(''value'', VStr ''a'')] [])])])])])])])]"

text \<open>A \<open>require\<close> of a number literal.\<close>

definition numericUnitCode :: string where
  "numericUnitCode = ''require(123)''"

definition numericUnit :: node where
  "numericUnit =
     Node ''Program'' 0 12 []
      [
       (''body'',
         Node ''ExpressionStatement'' 0 12 []
          [
           (''expression'',
             Node ''CallExpression'' 0 12 []
              [
               (''callee'',
                 Node ''Identifier'' 0 7 [(''name'', VStr ''require'')] []),
               (''arguments'',
                 Node ''Literal'' 8 11 [(''value'', VNum 123)] [])])])]"

text \<open>A unit that mentions the literal \<open>'__esModule'\<close> in a write to \<open>exports\<close>.\<close>

definition markedUnitCode :: string where
  "markedUnitCode = ''exports['' @ [CHR 0x27] @ ''__esModule'' @ [CHR 0x27] @ ''] = 1''"

definition markedUnit :: node where
  "markedUnit =
     Node ''Program'' 0 25 []
      [
       (''body'',
         Node ''ExpressionStatement'' 0 25 []
          [
           (''expression'',
             Node ''AssignmentExpression'' 0 25 [(''operator'', VStr ''='')]
              [
               (''left'',
                 Node ''MemberExpression'' 0 21 [(''computed'', VBool True)]
                  [
                   (''object'',
                     Node ''Identifier'' 0 7 [(''name'', VStr ''exports'')] []),
                   (''property'',
                     Node ''Literal'' 8 20 [(''value'', VStr ''__esModule'')] [])]),
               (''right'',
                 Node ''Literal'' 24 25 [(''value'', VNum 1)] [])])])]"

text \<open>A unit without any export.\<close>

definition plainUnitCode :: string where
  "plainUnitCode = ''var foo = 1''"

definition plainUnit :: node where
  "plainUnit =
     Node ''Program'' 0 11 []
      [
       (''body'',
         Node ''VariableDeclaration'' 0 11 [(''kind'', VStr ''var'')]
          [
           (''declarations'',
             Node ''VariableDeclarator'' 4 11 []
              [
               (''id'',
                 Node ''Identifier'' 4 7 [(''name'', VStr ''foo'')] []),
               (''init'',
                 Node ''Literal'' 10 11 [(''value'', VNum 1)] [])])])]"

text \<open>A conditional whose test assigns to an undeclared variable.\<close>

definition leakingUnitCode :: string where
  "leakingUnitCode = ''if ((leak = 1) == 1) require('' @ [CHR 0x27] @ ''a'' @ [CHR 0x27] @ '')''"

definition leakingUnit :: node where
  "leakingUnit =
     Node ''Program'' 0 33 []
      [
       (''body'',
         Node ''IfStatement'' 0 33 []
          [
           (''test'',
             Node ''BinaryExpression'' 4 19 [(''operator'', VStr ''=='')]
              [
               (''left'',
                 Node ''AssignmentExpression'' 5 13 [(''operator'', VStr ''='')]
                  [
                   (''left'',
                     Node ''Identifier'' 5 9 [(''name'', VStr ''leak'')] []),
                   (''right'',
                     Node ''Literal'' 12 13 [(''value'', VNum 1)] [])]),
               (''right'',
                 Node ''Literal'' 18 19 [(''value'', VNum 1)] [])]),
           (''consequent'',
             Node ''ExpressionStatement'' 21 33 []
              [
               (''expression'',
                 Node ''CallExpression'' 21 33 []
                  [
                   (''callee'',
                     Node ''Identifier'' 21 28 [(''name'', VStr ''require'')] []),
                   (''arguments'',
                     Node ''Literal'' 29 32 [(''value'', VStr ''a'')] [])])])])]"

text \<open>An \<open>if\<close>/\<open>else\<close> pair with one \<open>require\<close> in each branch and a false comparison.\<close>

definition eitherUnitCode :: string where
  "eitherUnitCode = ''if (1 == 2) { require('' @ [CHR 0x27] @ ''a'' @ [CHR 0x27] @ '') } else { require('' @ [CHR 0x27] @ ''b'' @ [CHR 0x27] @ '') }''"

definition eitherUnit :: node where
  "eitherUnit =
     Node ''Program'' 0 50 []
      [
       (''body'',
         Node ''IfStatement'' 0 50 []
          [
           (''test'',
             Node ''BinaryExpression'' 4 10 [(''operator'', VStr ''=='')]
              [
               (''left'',
                 Node ''Literal'' 4 5 [(''value'', VNum 1)] []),
               (''right'',
                 Node ''Literal'' 9 10 [(''value'', VNum 2)] [])]),
           (''consequent'',
             Node ''BlockStatement'' 12 28 []
              [
               (''body'',
                 Node ''ExpressionStatement'' 14 26 []
                  [
                   (''expression'',
                     Node ''CallExpression'' 14 26 []
                      [
                       (''callee'',
                         Node ''Identifier'' 14 21 [(''name'', VStr ''require'')] []),
                       (''arguments'',
                         Node ''Literal'' 22 25 [(''value'', VStr ''a'')] [])])])]),
           (''alternate'',
             Node ''BlockStatement'' 34 50 []
              [
               (''body'',
                 Node ''ExpressionStatement'' 36 48 []
                  [
                   (''expression'',
                     Node ''CallExpression'' 36 48 []
                      [
                       (''callee'',
                         Node ''Identifier'' 36 43 [(''name'', VStr ''require'')] []),
                       (''arguments'',
                         Node ''Literal'' 44 47 [(''value'', VStr ''b'')] [])])])])])]"

text \<open>A unit that exports what it requires.\<close>

definition reexportUnitCode :: string where
  "reexportUnitCode = ''module.exports = require('' @ [CHR 0x27] @ ''./dep.js'' @ [CHR 0x27] @ '')''"

definition reexportUnit :: node where
  "reexportUnit =
     Node ''Program'' 0 36 []
      [
       (''body'',
         Node ''ExpressionStatement'' 0 36 []
          [
           (''expression'',
             Node ''AssignmentExpression'' 0 36 [(''operator'', VStr ''='')]
              [
               (''left'',
                 Node ''MemberExpression'' 0 14 [(''computed'', VBool False)]
                  [
                   (''object'',
                     Node ''Identifier'' 0 6 [(''name'', VStr ''module'')] []),
                   (''property'',
                     Node ''Identifier'' 7 14 [(''name'', VStr ''exports'')] [])]),
               (''right'',
                 Node ''CallExpression'' 17 36 []
                  [
                   (''callee'',
                     Node ''Identifier'' 17 24 [(''name'', VStr ''require'')] []),
                   (''arguments'',
                     Node ''Literal'' 25 35 [(''value'', VStr ''./dep.js'')] [])])])])]"

text \<open>A \<open>require\<close> under a conditional that tests an identifier.\<close>

definition opaqueUnitCode :: string where
  "opaqueUnitCode = ''if (x) { require('' @ [CHR 0x27] @ ''a'' @ [CHR 0x27] @ '') }''"

definition opaqueUnit :: node where
  "opaqueUnit =
     Node ''Program'' 0 23 []
      [
       (''body'',
         Node ''IfStatement'' 0 23 []
          [
           (''test'',
             Node ''Identifier'' 4 5 [(''name'', VStr ''x'')] []),
           (''consequent'',
             Node ''BlockStatement'' 7 23 []
              [
               (''body'',
                 Node ''ExpressionStatement'' 9 21 []
                  [
                   (''expression'',
                     Node ''CallExpression'' 9 21 []
                      [
                       (''callee'',
                         Node ''Identifier'' 9 16 [(''name'', VStr ''require'')] []),
                       (''arguments'',
                         Node ''Literal'' 17 20 [(''value'', VStr ''a'')] [])])])])])]"

text \<open>A \<open>require\<close> of a variable.\<close>

definition dynamicUnitCode :: string where
  "dynamicUnitCode = ''require(somevar)''"

definition dynamicUnit :: node where
  "dynamicUnit =
     Node ''Program'' 0 16 []
      [
       (''body'',
         Node ''ExpressionStatement'' 0 16 []
          [
           (''expression'',
             Node ''CallExpression'' 0 16 []
              [
               (''callee'',
                 Node ''Identifier'' 0 7 [(''name'', VStr ''require'')] []),
               (''arguments'',
                 Node ''Identifier'' 8 15 [(''name'', VStr ''somevar'')] [])])])]"

text \<open>A marked unit that writes \<open>exports.a\<close> twice and declares \<open>b\<close> at top level.\<close>

definition namedUnitCode :: string where
  "namedUnitCode = ''exports['' @ [CHR 0x27] @ ''__esModule'' @ [CHR 0x27] @ ''] = 1; exports.a = 2; exports.a = 3; var b = 4''"

definition namedUnit :: node where
  "namedUnit =
     Node ''Program'' 0 66 []
      [
       (''body'',
         Node ''ExpressionStatement'' 0 26 []
          [
           (''expression'',
             Node ''AssignmentExpression'' 0 25 [(''operator'', VStr ''='')]
              [
               (''left'',
                 Node ''MemberExpression'' 0 21 [(''computed'', VBool True)]
                  [
                   (''object'',
                     Node ''Identifier'' 0 7 [(''name'', VStr ''exports'')] []),
                   (''property'',
                     Node ''Literal'' 8 20 [(''value'', VStr ''__esModule'')] [])]),
               (''right'',
                 Node ''Literal'' 24 25 [(''value'', VNum 1)] [])])]),
       (''body'',
         Node ''ExpressionStatement'' 27 41 []
          [
           (''expression'',
             Node ''AssignmentExpression'' 27 40 [(''operator'', VStr ''='')]
              [
               (''left'',
                 Node ''MemberExpression'' 27 36 [(''computed'', VBool False)]
                  [
                   (''object'',
                     Node ''Identifier'' 27 34 [(''name'', VStr ''exports'')] []),
                   (''property'',
                     Node ''Identifier'' 35 36 [(''name'', VStr ''a'')] [])]),
               (''right'',
                 Node ''Literal'' 39 40 [(''value'', VNum 2)] [])])]),
       (''body'',
         Node ''ExpressionStatement'' 42 56 []
          [
           (''expression'',
             Node ''AssignmentExpression'' 42 55 [(''operator'', VStr ''='')]
              [
               (''left'',
                 Node ''MemberExpression'' 42 51 [(''computed'', VBool False)]
                  [
                   (''object'',
                     Node ''Identifier'' 42 49 [(''name'', VStr ''exports'')] []),
                   (''property'',
                     Node ''Identifier'' 50 51 [(''name'', VStr ''a'')] [])]),
               (''right'',
                 Node ''Literal'' 54 55 [(''value'', VNum 3)] [])])]),
       (''body'',
         Node ''VariableDeclaration'' 57 66 [(''kind'', VStr ''var'')]
          [
           (''declarations'',
             Node ''VariableDeclarator'' 61 66 []
              [
               (''id'',
                 Node ''Identifier'' 61 62 [(''name'', VStr ''b'')] []),
               (''init'',
                 Node ''Literal'' 65 66 [(''value'', VNum 4)] [])])])]"

text \<open>A conditional whose test reads a variable that the unit does not declare.\<close>

definition flaggedUnitCode :: string where
  "flaggedUnitCode = ''if (flag == 1) require('' @ [CHR 0x27] @ ''a'' @ [CHR 0x27] @ '')''"

definition flaggedUnit :: node where
  "flaggedUnit =
     Node ''Program'' 0 27 []
      [
       (''body'',
         Node ''IfStatement'' 0 27 []
          [
           (''test'',
             Node ''BinaryExpression'' 4 13 [(''operator'', VStr ''=='')]
              [
               (''left'',
                 Node ''Identifier'' 4 8 [(''name'', VStr ''flag'')] []),
               (''right'',
                 Node ''Literal'' 12 13 [(''value'', VNum 1)] [])]),
           (''consequent'',
             Node ''ExpressionStatement'' 15 27 []
              [
               (''expression'',
                 Node ''CallExpression'' 15 27 []
                  [
                   (''callee'',
                     Node ''Identifier'' 15 22 [(''name'', VStr ''require'')] []),
                   (''arguments'',
                     Node ''Literal'' 23 26 [(''value'', VStr ''a'')] [])])])])]"

text \<open>An \<open>if\<close>/\<open>else\<close> pair with one \<open>require\<close> in each branch and a true comparison.\<close>

definition trueUnitCode :: string where
  "trueUnitCode = ''if (1 == 1) { require('' @ [CHR 0x27] @ ''a'' @ [CHR 0x27] @ '') } else { require('' @ [CHR 0x27] @ ''b'' @ [CHR 0x27] @ '') }''"

definition trueUnit :: node where
  "trueUnit =
     Node ''Program'' 0 50 []
      [
       (''body'',
         Node ''IfStatement'' 0 50 []
          [
           (''test'',
             Node ''BinaryExpression'' 4 10 [(''operator'', VStr ''=='')]
              [
               (''left'',
                 Node ''Literal'' 4 5 [(''value'', VNum 1)] []),
               (''right'',
                 Node ''Literal'' 9 10 [(''value'', VNum 1)] [])]),
           (''consequent'',
             Node ''BlockStatement'' 12 28 []
              [
               (''body'',
                 Node ''ExpressionStatement'' 14 26 []
                  [
                   (''expression'',
                     Node ''CallExpression'' 14 26 []
                      [
                       (''callee'',
                         Node ''Identifier'' 14 21 [(''name'', VStr ''require'')] []),
                       (''arguments'',
                         Node ''Literal'' 22 25 [(''value'', VStr ''a'')] [])])])]),
           (''alternate'',
             Node ''BlockStatement'' 34 50 []
              [
               (''body'',
                 Node ''ExpressionStatement'' 36 48 []
                  [
                   (''expression'',
                     Node ''CallExpression'' 36 48 []
                      [
                       (''callee'',
                         Node ''Identifier'' 36 43 [(''name'', VStr ''require'')] []),
                       (''arguments'',
                         Node ''Literal'' 44 47 [(''value'', VStr ''b'')] [])])])])])]"

text \<open>An \<open>if\<close>/\<open>else\<close> pair with a false comparison, inside a conditional with a true comparison.\<close>

definition bothUnitCode :: string where
  "bothUnitCode = ''if (1 == 1) { if (1 == 2) { require('' @ [CHR 0x27] @ ''a'' @ [CHR 0x27] @ '') } else { require('' @ [CHR 0x27] @ ''b'' @ [CHR 0x27] @ '') } }''"

definition bothUnit :: node where
  "bothUnit =
     Node ''Program'' 0 66 []
      [
       (''body'',
         Node ''IfStatement'' 0 66 []
          [
           (''test'',
             Node ''BinaryExpression'' 4 10 [(''operator'', VStr ''=='')]
              [
               (''left'',
                 Node ''Literal'' 4 5 [(''value'', VNum 1)] []),
               (''right'',
                 Node ''Literal'' 9 10 [(''value'', VNum 1)] [])]),
           (''consequent'',
             Node ''BlockStatement'' 12 66 []
              [
               (''body'',
                 Node ''IfStatement'' 14 64 []
                  [
                   (''test'',
                     Node ''BinaryExpression'' 18 24 [(''operator'', VStr ''=='')]
                      [
                       (''left'',
                         Node ''Literal'' 18 19 [(''value'', VNum 1)] []),
                       (''right'',
                         Node ''Literal'' 23 24 [(''value'', VNum 2)] [])]),
                   (''consequent'',
                     Node ''BlockStatement'' 26 42 []
                      [
                       (''body'',
                         Node ''ExpressionStatement'' 28 40 []
                          [
                           (''expression'',
                             Node ''CallExpression'' 28 40 []
                              [
                               (''callee'',
                                 Node ''Identifier'' 28 35 [(''name'', VStr ''require'')] []),
                               (''arguments'',
                                 Node ''Literal'' 36 39 [(''value'', VStr ''a'')] [])])])]),
                   (''alternate'',
                     Node ''BlockStatement'' 48 64 []
                      [
                       (''body'',
                         Node ''ExpressionStatement'' 50 62 []
                          [
                           (''expression'',
                             Node ''CallExpression'' 50 62 []
                              [
                               (''callee'',
                                 Node ''Identifier'' 50 57 [(''name'', VStr ''require'')] []),
                               (''arguments'',
                                 Node ''Literal'' 58 61 [(''value'', VStr ''b'')] [])])])])])])])]"

text \<open>A conditional that compares a number with a string.\<close>

definition coercedUnitCode :: string where
  "coercedUnitCode = ''if (1 == '' @ [CHR 0x27] @ ''1'' @ [CHR 0x27] @ '') require('' @ [CHR 0x27] @ ''a'' @ [CHR 0x27] @ '')''"

definition coercedUnit :: node where
  "coercedUnit =
     Node ''Program'' 0 26 []
      [
       (''body'',
         Node ''IfStatement'' 0 26 []
          [
           (''test'',
             Node ''BinaryExpression'' 4 12 [(''operator'', VStr ''=='')]
              [
               (''left'',
                 Node ''Literal'' 4 5 [(''value'', VNum 1)] []),
               (''right'',
                 Node ''Literal'' 9 12 [(''value'', VStr ''1'')] [])]),
           (''consequent'',
             Node ''ExpressionStatement'' 14 26 []
              [
               (''expression'',
                 Node ''CallExpression'' 14 26 []
                  [
                   (''callee'',
                     Node ''Identifier'' 14 21 [(''name'', VStr ''require'')] []),
                   (''arguments'',
                     Node ''Literal'' 22 25 [(''value'', VStr ''a'')] [])])])])]"

text \<open>A conditional that compares two booleans.\<close>

definition booleanUnitCode :: string where
  "booleanUnitCode = ''if (true == true) require('' @ [CHR 0x27] @ ''a'' @ [CHR 0x27] @ '')''"

definition booleanUnit :: node where
  "booleanUnit =
     Node ''Program'' 0 30 []
      [
       (''body'',
         Node ''IfStatement'' 0 30 []
          [
           (''test'',
             Node ''BinaryExpression'' 4 16 [(''operator'', VStr ''=='')]
              [
               (''left'',
                 Node ''Literal'' 4 8 [(''value'', VBool True)] []),
               (''right'',
                 Node ''Literal'' 12 16 [(''value'', VBool True)] [])]),
           (''consequent'',
             Node ''ExpressionStatement'' 18 30 []
              [
               (''expression'',
                 Node ''CallExpression'' 18 30 []
                  [
                   (''callee'',
                     Node ''Identifier'' 18 25 [(''name'', VStr ''require'')] []),
                   (''arguments'',
                     Node ''Literal'' 26 29 [(''value'', VStr ''a'')] [])])])])]"

text \<open>A conditional that compares two comparisons.\<close>

definition compoundUnitCode :: string where
  "compoundUnitCode = ''if ((2 < 1) === ('' @ [CHR 0x27] @ ''b'' @ [CHR 0x27] @ '' < '' @ [CHR 0x27] @ ''a'' @ [CHR 0x27] @ '')) require('' @ [CHR 0x27] @ ''a'' @ [CHR 0x27] @ '')''"

definition compoundUnit :: node where
  "compoundUnit =
     Node ''Program'' 0 41 []
      [
       (''body'',
         Node ''IfStatement'' 0 41 []
          [
           (''test'',
             Node ''BinaryExpression'' 4 27 [(''operator'', VStr ''==='')]
              [
               (''left'',
                 Node ''BinaryExpression'' 5 10 [(''operator'', VStr ''<'')]
                  [
                   (''left'',
                     Node ''Literal'' 5 6 [(''value'', VNum 2)] []),
                   (''right'',
                     Node ''Literal'' 9 10 [(''value'', VNum 1)] [])]),
               (''right'',
                 Node ''BinaryExpression'' 17 26 [(''operator'', VStr ''<'')]
                  [
                   (''left'',
                     Node ''Literal'' 17 20 [(''value'', VStr ''b'')] []),
                   (''right'',
                     Node ''Literal'' 23 26 [(''value'', VStr ''a'')] [])])]),
           (''consequent'',
             Node ''ExpressionStatement'' 29 41 []
              [
               (''expression'',
                 Node ''CallExpression'' 29 41 []
                  [
                   (''callee'',
                     Node ''Identifier'' 29 36 [(''name'', VStr ''require'')] []),
                   (''arguments'',
                     Node ''Literal'' 37 40 [(''value'', VStr ''a'')] [])])])])]"

text \<open>The visit of the \<open>require\<close> call in some of these units.\<close>

definition nestedCall :: visit where
  "nestedCall = visits [] [] nestedUnit ! 12"

definition guardedCall :: visit where
  "guardedCall = visits [] [] guardedUnit ! 10"

definition numericCall :: visit where
  "numericCall = visits [] [] numericUnit ! 2"

definition dynamicCall :: visit where
  "dynamicCall = visits [] [] dynamicUnit ! 2"

definition opaqueCall :: visit where
  "opaqueCall = visits [] [] opaqueUnit ! 5"


definition eitherCallB :: visit where
  "eitherCallB = visits [] [] eitherUnit ! 12"


definition trueCallB :: visit where
  "trueCallB = visits [] [] trueUnit ! 12"



text \<open>The conditional statement of some of these units.\<close>

definition leakingIf :: node where
  "leakingIf = snd (nkids leakingUnit ! 0)"

definition flaggedIf :: node where
  "flaggedIf = snd (nkids flaggedUnit ! 0)"

definition nestedOuterIf :: node where
  "nestedOuterIf = snd (nkids nestedUnit ! 0)"

definition coercedIf :: node where
  "coercedIf = snd (nkids coercedUnit ! 0)"

definition booleanIf :: node where
  "booleanIf = snd (nkids booleanUnit ! 0)"

definition compoundIf :: node where
  "compoundIf = snd (nkids compoundUnit ! 0)"

definition bothInnerIf :: node where
  "bothInnerIf = snd (nkids (snd (nkids (snd (nkids bothUnit ! 0)) ! 1)) ! 0)"



section \<open>Facts about the model\<close>

lemma nodePaths_kidPaths_iff:
  "(t \<in> set (nodePaths p n) \<longleftrightarrow> (\<exists>q. t = p @ q \<and> nodeAt n q \<noteq> None))"
  "(t \<in> set (kidPaths p i ks) \<longleftrightarrow>
      (\<exists>j q. j < length ks \<and> t = p @ (i + j) # q \<and> nodeAt (snd (ks ! j)) q \<noteq> None))"
proof (induction p n and p i ks arbitrary: t and t rule: nodePaths_kidPaths.induct)
  case (1 p n)
  have "(\<exists>q. t = p @ q \<and> nodeAt n q \<noteq> None) \<longleftrightarrow>
        t = p \<or> (\<exists>j q. j < length (nkids n) \<and> t = p @ j # q
                    \<and> nodeAt (snd (nkids n ! j)) q \<noteq> None)"
  proof
    assume "\<exists>q. t = p @ q \<and> nodeAt n q \<noteq> None"
    then obtain q where q: "t = p @ q" "nodeAt n q \<noteq> None"
      by blast
    show "t = p \<or> (\<exists>j q. j < length (nkids n) \<and> t = p @ j # q
                    \<and> nodeAt (snd (nkids n ! j)) q \<noteq> None)"
    proof (cases q)
      case Nil
      with q show ?thesis by simp
    next
      case (Cons j q')
      with q have "j < length (nkids n)" "nodeAt (snd (nkids n ! j)) q' \<noteq> None"
        by (auto split: if_splits)
      with q Cons show ?thesis by auto
    qed
  next
    assume "t = p \<or> (\<exists>j q. j < length (nkids n) \<and> t = p @ j # q
                    \<and> nodeAt (snd (nkids n ! j)) q \<noteq> None)"
    then show "\<exists>q. t = p @ q \<and> nodeAt n q \<noteq> None"
    proof
      assume "t = p"
      then show ?thesis by (intro exI [of _ "[]"]) simp
    next
      assume "\<exists>j q. j < length (nkids n) \<and> t = p @ j # q
                \<and> nodeAt (snd (nkids n ! j)) q \<noteq> None"
      then obtain j q where "j < length (nkids n)" "t = p @ j # q"
          "nodeAt (snd (nkids n ! j)) q \<noteq> None"
        by blast
      then show ?thesis by (intro exI [of _ "j # q"]) simp
    qed
  qed
  with "1.IH" show ?case
    by (simp add: nodePaths.simps)
next
  case (2 p i)
  show ?case by simp
next
  case (3 p i kc ks)
  have "(\<exists>j q. j < length (kc # ks) \<and> t = p @ (i + j) # q
                \<and> nodeAt (snd ((kc # ks) ! j)) q \<noteq> None) \<longleftrightarrow>
        (\<exists>q. t = p @ i # q \<and> nodeAt (snd kc) q \<noteq> None)
        \<or> (\<exists>j q. j < length ks \<and> t = p @ (Suc i + j) # q
                \<and> nodeAt (snd (ks ! j)) q \<noteq> None)"
  proof
    assume "\<exists>j q. j < length (kc # ks) \<and> t = p @ (i + j) # q
              \<and> nodeAt (snd ((kc # ks) ! j)) q \<noteq> None"
    then obtain j q where jq: "j < length (kc # ks)" "t = p @ (i + j) # q"
        "nodeAt (snd ((kc # ks) ! j)) q \<noteq> None"
      by blast
    show "(\<exists>q. t = p @ i # q \<and> nodeAt (snd kc) q \<noteq> None)
          \<or> (\<exists>j q. j < length ks \<and> t = p @ (Suc i + j) # q
                \<and> nodeAt (snd (ks ! j)) q \<noteq> None)"
    proof (cases j)
      case 0
      with jq show ?thesis by auto
    next
      case (Suc j')
      with jq have "j' < length ks" "t = p @ (Suc i + j') # q"
          "nodeAt (snd (ks ! j')) q \<noteq> None"
        by auto
      then show ?thesis by blast
    qed
  next
    assume "(\<exists>q. t = p @ i # q \<and> nodeAt (snd kc) q \<noteq> None)
            \<or> (\<exists>j q. j < length ks \<and> t = p @ (Suc i + j) # q
                  \<and> nodeAt (snd (ks ! j)) q \<noteq> None)"
    then show "\<exists>j q. j < length (kc # ks) \<and> t = p @ (i + j) # q
                \<and> nodeAt (snd ((kc # ks) ! j)) q \<noteq> None"
    proof
      assume "\<exists>q. t = p @ i # q \<and> nodeAt (snd kc) q \<noteq> None"
      then obtain q where "t = p @ i # q" "nodeAt (snd kc) q \<noteq> None"
        by blast
      then show ?thesis by (intro exI [of _ 0] exI [of _ q]) simp
    next
      assume "\<exists>j q. j < length ks \<and> t = p @ (Suc i + j) # q
                \<and> nodeAt (snd (ks ! j)) q \<noteq> None"
      then obtain j q where "j < length ks" "t = p @ (Suc i + j) # q"
          "nodeAt (snd (ks ! j)) q \<noteq> None"
        by blast
      then show ?thesis by (intro exI [of _ "Suc j"] exI [of _ q]) simp
    qed
  qed
  with "3.IH" show ?case
    by simp
qed

lemmas nodePaths_iff = nodePaths_kidPaths_iff(1)

lemma findNodeInAst_liesWithin: "findNodeInAst branch p = liesWithin branch p"
  by (auto simp: findNodeInAst_def liesWithin_def nodePaths_iff prefix_def
           split: option.splits)

lemma someAncestors_passedOver:
  "\<forall>a \<in> set pre. passedOver (snd a) \<Longrightarrow>
     someAncestors e (pre @ rest) target g = someAncestors e rest target g"
  by (induction pre) (auto simp: passedOver_def split: option.splits)

lemma someAncestors_qualifies:
  "qualifies parent \<Longrightarrow>
     someAncestors e ((pp, parent) # post) target g =
       (case evalBranch e parent g of
          Inl err \<Rightarrow> Inl err
        | Inr (branch, g') \<Rightarrow> Inr (liesWithin (firedBranch pp parent branch) target, g'))"
  by (auto simp: qualifies_def firedBranch_def findNodeInAst_liesWithin
           split: option.splits sum.splits)

lemma someAncestors_none:
  "\<forall>a \<in> set anc. passedOver (snd a) \<Longrightarrow> someAncestors e anc target g = Inr (True, g)"
  using someAncestors_passedOver [where pre = anc and rest = "[]"] by simp

lemma handleCall_requireLiteral:
  "requireLiteral n arg \<Longrightarrow>
     handleCall e (anc, p, n) st =
       (case someAncestors e anc p (globals st) of
          Inl err \<Rightarrow> Inl err
        | Inr (shouldInclude, g') \<Rightarrow>
            if shouldInclude then includeRequire e n arg (st\<lparr>globals := g'\<rparr>)
            else Inr (st\<lparr>globals := g'\<rparr>))"
  by (auto simp: handleCall_def requireLiteral_def split: option.splits)

lemma enter_CallExpression:
  "ntype n = ''CallExpression'' \<Longrightarrow> enter e (anc, p, n) st = handleCall e (anc, p, n) st"
  by (auto simp: enter_def handleAssignment_def handleIdentifier_def handleLiteral_def
        handleExportDefault_def split: sum.splits)

lemma handleCall_changes:
  assumes "handleCall e (anc, p, n) st = Inr st'"
    and "importIndex st' \<noteq> importIndex st \<or> hasImports st' \<noteq> hasImports st \<or> s st' \<noteq> s st"
  shows "\<exists>arg. requireLiteral n arg"
  using assms
  by (auto simp: handleCall_def requireLiteral_def
      split: if_splits option.splits list.splits sum.splits prod.splits)

lemma handleCall_passes:
  assumes "ntype n = ''CallExpression''" and "kid n ''callee'' = Some c"
    and "\<not> (\<exists>arg. kidsOf n ''arguments'' = [arg] \<and> ntype arg = ''Literal'')"
  shows "handleCall e (anc, p, n) st = Inr st"
  using assms by (auto simp: handleCall_def split: list.splits)


lemma binop_primitive: "binop operator l r = Some v \<Longrightarrow> primitive v"
  by (auto simp: binop_def split: if_splits)

lemma applyOperator_primitive:
  assumes "closedOperators e" and "primitive l" and "primitive r"
    and "applyOperator e operator l r = Inr v"
  shows "primitive v"
proof (cases "binop operator l r")
  case None
  with assms(4) have "operate e operator l r = Inr v"
    by (simp add: applyOperator_def split: if_splits)
  with assms(1-3) show ?thesis
    unfolding closedOperators_def by blast
next
  case (Some w)
  with assms(4) have "w = v"
    by (simp add: applyOperator_def split: if_splits)
  with Some show ?thesis
    by (simp add: binop_primitive)
qed

lemma evalExpr_Literal:
  assumes "ntype n = ''Literal''" and "attr n ''value'' = Some v" and "primitive v"
  shows "evalExpr e n st = Inr (v, st)"
  by (subst evalExpr.simps) (simp add: assms)

lemma evalExpr_Binary:
  assumes "ntype n = ''BinaryExpression''" and "attr n ''operator'' = Some (VStr operator)"
    and "kid n ''left'' = Some l" and "kid n ''right'' = Some r"
  shows "evalExpr e n st =
           (case evalExpr e l st of
              Inl err \<Rightarrow> Inl err
            | Inr (lv, st1) \<Rightarrow>
                (case evalExpr e r st1 of
                   Inl err \<Rightarrow> Inl err
                 | Inr (rv, st2) \<Rightarrow>
                     if primitive lv \<and> primitive rv then
                       (case applyOperator e operator lv rv of
                          Inl x \<Rightarrow> Inl (Threw x)
                        | Inr v \<Rightarrow> Inr (v, st2))
                     else evaluate e n st))"
  by (subst evalExpr.simps) (simp add: assms)

lemma literalTree_cases:
  assumes "literalTree n"
  shows "(ntype n = ''Literal'' \<and> (\<exists>v. attr n ''value'' = Some v \<and> primitive v))
         \<or> (ntype n \<noteq> ''Literal'' \<and> ntype n = ''BinaryExpression''
             \<and> (\<exists>operator l r. attr n ''operator'' = Some (VStr operator)
                   \<and> kid n ''left'' = Some l \<and> kid n ''right'' = Some r
                   \<and> literalTree l \<and> literalTree r))"
  using assms
  by (subst (asm) literalTree.simps)
     (auto split: if_splits option.splits jsval.splits)

lemma literalTree_pure:
  assumes closed: "closedOperators e"
  shows "literalTree n \<Longrightarrow>
           (\<exists>v. evalExpr e n st = Inr (v, st) \<and> primitive v)
           \<or> (\<exists>x. evalExpr e n st = Inl (Threw x))"
proof (induction n rule: literalTree.induct)
  case (1 n)
  from literalTree_cases [OF "1.prems"] show ?case
  proof
    assume "ntype n = ''Literal'' \<and> (\<exists>v. attr n ''value'' = Some v \<and> primitive v)"
    then show ?thesis
      by (auto simp: evalExpr_Literal)
  next
    assume "ntype n \<noteq> ''Literal'' \<and> ntype n = ''BinaryExpression''
             \<and> (\<exists>operator l r. attr n ''operator'' = Some (VStr operator)
                   \<and> kid n ''left'' = Some l \<and> kid n ''right'' = Some r
                   \<and> literalTree l \<and> literalTree r)"
    then obtain operator l r where
        nl: "ntype n \<noteq> ''Literal''" and b: "ntype n = ''BinaryExpression''"
        and operator: "attr n ''operator'' = Some (VStr operator)"
        and l: "kid n ''left'' = Some l" and r: "kid n ''right'' = Some r"
        and trees: "literalTree l" "literalTree r"
      by blast
    note unfold = evalExpr_Binary [OF b operator l r, of e st]
    have pl: "(\<exists>v. evalExpr e l st = Inr (v, st) \<and> primitive v)
              \<or> (\<exists>x. evalExpr e l st = Inl (Threw x))"
      using "1.IH"(1) [OF nl b operator refl l r trees(1)] .
    have pr: "(\<exists>v. evalExpr e r st = Inr (v, st) \<and> primitive v)
              \<or> (\<exists>x. evalExpr e r st = Inl (Threw x))"
      using "1.IH"(2) [OF nl b operator refl l r trees(2)] .
    from pl show ?thesis
    proof
      assume "\<exists>x. evalExpr e l st = Inl (Threw x)"
      then show ?thesis
        by (auto simp: unfold)
    next
      assume "\<exists>v. evalExpr e l st = Inr (v, st) \<and> primitive v"
      then obtain lv where lv: "evalExpr e l st = Inr (lv, st)" "primitive lv"
        by blast
      from pr show ?thesis
      proof
        assume "\<exists>x. evalExpr e r st = Inl (Threw x)"
        then show ?thesis
          using lv by (auto simp: unfold)
      next
        assume "\<exists>v. evalExpr e r st = Inr (v, st) \<and> primitive v"
        then obtain rv where rv: "evalExpr e r st = Inr (rv, st)" "primitive rv"
          by blast
        show ?thesis
        proof (cases "applyOperator e operator lv rv")
          case (Inl x)
          then show ?thesis
            using lv rv by (simp add: unfold)
        next
          case (Inr v)
          moreover from this have "primitive v"
            using applyOperator_primitive [OF closed lv(2) rv(2)] by blast
          ultimately show ?thesis
            using lv rv by (simp add: unfold)
        qed
      qed
    qed
  qed
qed











































lemma interop_helpers_agree:
  assumes "\<not> truthy (getProp ex ''__esModule'')"
    and "truthy (getProp ex ''default'') \<or> getProp ex ''default'' = VUndefined"
  shows "interopImport_index ex = interopImport ex"
  using assms by (auto simp: interopImport_index_def interopImport_def)


lemma examples_need_no_engine:
  "scan e nestedUnit nestedUnitCode [] = scan bareEngine nestedUnit nestedUnitCode []"
  "scan e guardedUnit guardedUnitCode [] = scan bareEngine guardedUnit guardedUnitCode []"
  "scan e numericUnit numericUnitCode [] = scan bareEngine numericUnit numericUnitCode []"
  "scan e markedUnit markedUnitCode [] = scan bareEngine markedUnit markedUnitCode []"
  "scan e plainUnit plainUnitCode [] = scan bareEngine plainUnit plainUnitCode []"
  "scan e leakingUnit leakingUnitCode [] = scan bareEngine leakingUnit leakingUnitCode []"
  "scan e eitherUnit eitherUnitCode [] = scan bareEngine eitherUnit eitherUnitCode []"
  "scan e reexportUnit reexportUnitCode [] = scan bareEngine reexportUnit reexportUnitCode []"
  "scan e opaqueUnit opaqueUnitCode [] = scan bareEngine opaqueUnit opaqueUnitCode []"
  "scan e dynamicUnit dynamicUnitCode [] = scan bareEngine dynamicUnit dynamicUnitCode []"
  "scan e namedUnit namedUnitCode [] = scan bareEngine namedUnit namedUnitCode []"
  "scan e flaggedUnit flaggedUnitCode [] = scan bareEngine flaggedUnit flaggedUnitCode []"
  "scan e trueUnit trueUnitCode [] = scan bareEngine trueUnit trueUnitCode []"
  "scan e bothUnit bothUnitCode [] = scan bareEngine bothUnit bothUnitCode []"
  "scan e coercedUnit coercedUnitCode [] = scan bareEngine coercedUnit coercedUnitCode []"
  "scan e booleanUnit booleanUnitCode [] = scan bareEngine booleanUnit booleanUnitCode []"
  "scan e compoundUnit compoundUnitCode [] = scan bareEngine compoundUnit compoundUnitCode []"
  by code_simp+

section \<open>The repository's tests on the model\<close>

text \<open>
  Three tests of \<open>src/test/index.js\<close>, with the units reduced to the statements
  that matter: a required module is imported through the helper and exported as the
  default; a \<open>require\<close> of a variable is left alone; of an \<open>if\<close>/\<open>else\<close> pair
  with a false comparison only the second branch's module is imported.
\<close>

lemma test_import_module:
  "transform bareEngine [] ''/w'' [] reexportUnit reexportUnitCode ''/w/main.js'' =
     Some (Inr (exportsDeclaration @ interopHelper
                @ importStatement ''__require__import__0'' ''./dep.js''
                @ ''__exports = __interopImport(__require__import__0)'' @ defaultExportCJS))"
  by code_simp

lemma test_require_without_literal:
  "transform bareEngine [] ''/w'' [] dynamicUnit dynamicUnitCode ''/w/main.js'' = Some (Inr dynamicUnitCode)"
  by code_simp

lemma test_branch_else:
  "transform bareEngine [] ''/w'' [] eitherUnit eitherUnitCode ''/w/main.js'' =
     Some (Inr (interopHelper @ importStatement ''__require__import__0'' ''b''
                @ ''if (1 == 2) { require('' @ [CHR 0x27] @ ''a'' @ [CHR 0x27]
                @ '') } else { __interopImport(__require__import__0) }''))"
  by code_simp

section \<open>Which conditional decides (C1)\<close>

text \<open>
  C1 says that the nearest enclosing \<open>IfStatement\<close> with a binary test decides whether
  a \<open>require\<close> call is included. The loop \<open>ancestors.some\<close> starts at the root, so the
  conditional it stops at is the outermost one.

  C1, as amended: for every \<open>require (literal)\<close> call nested inside one or more
  conditionals, only the outermost enclosing \<open>IfStatement\<close> whose test is a
  \<open>BinaryExpression\<close> is consulted. The ancestors above it are passed over, and the
  result is the one this conditional alone gives, whatever lies between it and the
  call: the conditionals nested inside it are never consulted.
\<close>

theorem outermost_conditional_decides:
  assumes "\<forall>a \<in> set pre. passedOver (snd a)" and "qualifies parent"
  shows "someAncestors e (pre @ (pp, parent) # post) target g =
           (case evalBranch e parent g of
              Inl err \<Rightarrow> Inl err
            | Inr (branch, g') \<Rightarrow> Inr (liesWithin (firedBranch pp parent branch) target, g'))
         \<and> someAncestors e (pre @ (pp, parent) # post) target g =
             someAncestors e [(pp, parent)] target g"
proof -
  have "someAncestors e (pre @ (pp, parent) # post) target g =
          someAncestors e ((pp, parent) # post) target g"
    using assms(1) by (rule someAncestors_passedOver)
  then show ?thesis
    by (simp only: someAncestors_qualifies [OF assms(2)] simp_thms)
qed

text \<open>
  C1 at \<open>if (1 == 1) { if (1 == 2) { require('a') } }\<close>: the ancestors above the outer
  conditional are passed over, the outer conditional qualifies and decides that the
  call is included.
\<close>

theorem outermost_conditional_decides_witness:
  "list_all (\<lambda>a. passedOver (snd a)) (take 1 (fst nestedCall))
   \<and> qualifies (snd (fst nestedCall ! 1))
   \<and> someAncestors bareEngine (fst nestedCall) (fst (snd nestedCall)) [] = Inr (True, [])
   \<and> someAncestors bareEngine [fst nestedCall ! 1] (fst (snd nestedCall)) [] = Inr (True, [])"
proof -
  have anc: "take 1 (fst nestedCall) @ fst nestedCall ! 1 # drop 2 (fst nestedCall)
             = fst nestedCall"
    by code_simp
  have pre: "\<forall>a \<in> set (take 1 (fst nestedCall)). passedOver (snd a)"
    by code_simp
  have qual: "qualifies (snd (fst nestedCall ! 1))"
    by code_simp
  have ev: "(case evalBranch bareEngine (snd (fst nestedCall ! 1)) [] of
               Inl err \<Rightarrow> Inl err
             | Inr (branch, g') \<Rightarrow>
                 Inr (liesWithin (firedBranch (fst (fst nestedCall ! 1))
                        (snd (fst nestedCall ! 1)) branch) (fst (snd nestedCall)), g'))
            = Inr (True, [])"
    by code_simp
  note decided = outermost_conditional_decides [OF pre qual, of bareEngine "fst (fst nestedCall ! 1)"
      "drop 2 (fst nestedCall)" "fst (snd nestedCall)" "[]", unfolded ev prod.collapse anc]
  from decided pre qual show ?thesis
    unfolding list_all_iff by metis
qed

text \<open>
  C1 as stated fails on the same unit: the nearest qualifying conditional is the inner
  one (nothing between it and the call qualifies) and alone it would skip the call,
  but the call is included and its import is in the output.
\<close>

theorem nearest_conditional_not_consulted:
  "qualifies (snd (fst nestedCall ! 3))
   \<and> list_all (\<lambda>a. passedOver (snd a)) (drop 4 (fst nestedCall))
   \<and> someAncestors bareEngine [fst nestedCall ! 3] (fst (snd nestedCall)) [] = Inr (False, [])
   \<and> someAncestors bareEngine (fst nestedCall) (fst (snd nestedCall)) [] = Inr (True, [])
   \<and> transform bareEngine [] ''/w'' [] nestedUnit nestedUnitCode ''/w/main.js'' =
       Some (Inr (interopHelper @ importStatement ''__require__import__0'' ''a''
                  @ ''if (1 == 1) { if (1 == 2) { __interopImport(__require__import__0) } }''))"
  by code_simp

section \<open>What the evaluation of a test can do (C2)\<close>

text \<open>
  C2 says that the evaluation of a test always terminates, runs no program logic and
  has no effect outside the local marker, for every test. The test is run by \<open>eval\<close>
  as it is written, so this holds for the tests that are made of literals and
  operators, and not for tests that assign to variables or read them.

  C2, as amended: when the test of the conditional is built from literals of
  primitive values (\<open>null\<close>, booleans, numbers, strings) and binary operators only,
  its evaluation ends, runs nothing but the operators of the test and
  has no effect outside the marker: it selects branch 0 or branch 1 and leaves the
  global variables as they were, or it throws the exception of an operator (as \<open>in\<close>
  does on a primitive value). This holds with every engine whose operators give
  primitive values on primitive values.
\<close>

theorem literal_test_is_pure:
  assumes "literalTest parent" and "closedOperators e"
  shows "(\<exists>branch. evalBranch e parent g = Inr (branch, g) \<and> (branch = 0 \<or> branch = 1))
         \<or> (\<exists>x. evalBranch e parent g = Inl (Threw x))"
proof -
  from assms(1) obtain t where t: "kid parent ''test'' = Some t" "literalTree t"
    by (auto simp: literalTest_def split: option.splits)
  from literalTree_pure [OF assms(2) t(2), of "(VUndefined, g)"] show ?thesis
  proof
    assume "\<exists>v. evalExpr e t (VUndefined, g) = Inr (v, VUndefined, g) \<and> primitive v"
    then obtain v where "evalExpr e t (VUndefined, g) = Inr (v, VUndefined, g)"
      by blast
    then have "evalBranch e parent g = Inr (if truthy v then 0 else 1, g)"
      by (simp add: evalBranch_def t)
    then show ?thesis
      by auto
  next
    assume "\<exists>x. evalExpr e t (VUndefined, g) = Inl (Threw x)"
    then show ?thesis
      by (auto simp: evalBranch_def t)
  qed
qed

text \<open>
  C2 at the conditionals of \<open>if (1 == '1') require('a')\<close>,
  \<open>if (true == true) require('a')\<close> and \<open>if ((2 < 1) === ('b' < 'a')) require('a')\<close>,
  which select the first branch, and at the inner conditional of
  \<open>if (1 == 1) { if (1 == 2) { require('a') } else { require('b') } }\<close>, which selects
  the second one.
\<close>

theorem literal_test_is_pure_witness:
  "literalTest coercedIf \<and> literalTest booleanIf \<and> literalTest compoundIf
   \<and> literalTest bothInnerIf \<and> closedOperators bareEngine
   \<and> evalBranch bareEngine coercedIf [] = Inr (0, [])
   \<and> evalBranch bareEngine booleanIf [] = Inr (0, [])
   \<and> evalBranch bareEngine compoundIf [] = Inr (0, [])
   \<and> evalBranch bareEngine bothInnerIf [] = Inr (1, [])"
proof -
  have lit: "literalTest coercedIf" "literalTest booleanIf" "literalTest compoundIf"
      "literalTest bothInnerIf"
    by code_simp+
  have closed: "closedOperators bareEngine"
    by (simp add: closedOperators_def bareEngine_def)
  have ev: "evalBranch bareEngine coercedIf [] = Inr (0, [])"
      "evalBranch bareEngine booleanIf [] = Inr (0, [])"
      "evalBranch bareEngine compoundIf [] = Inr (0, [])"
      "evalBranch bareEngine bothInnerIf [] = Inr (1, [])"
    by code_simp+
  from literal_test_is_pure [OF lit(1) closed, of "[]"] lit closed ev show ?thesis
    by simp
qed

text \<open>
  C2 as stated fails on \<open>if ((leak = 1) == 1) require('a')\<close>, whose evaluation creates
  the global variable \<open>leak\<close>, and on \<open>if (flag == 1) require('a')\<close>, whose evaluation
  throws when the process has no variable \<open>flag\<close> (the transform fails with it) and
  otherwise selects the branch by the value the process holds.
\<close>

theorem evaluated_test_has_effects:
  "qualifies leakingIf
   \<and> evalBranch bareEngine leakingIf [] = Inr (0, [(''leak'', VNum 1)])
   \<and> map_sum id globals (scan bareEngine leakingUnit leakingUnitCode []) = Inr [(''leak'', VNum 1)]
   \<and> qualifies flaggedIf
   \<and> evalBranch bareEngine flaggedIf [] = Inl (Threw ''ReferenceError'')
   \<and> transform bareEngine [] ''/w'' [] flaggedUnit flaggedUnitCode ''/w/main.js'' =
       Some (Inl (Threw ''ReferenceError''))
   \<and> evalBranch bareEngine flaggedIf [(''flag'', VNum 1)] = Inr (0, [(''flag'', VNum 1)])
   \<and> evalBranch bareEngine flaggedIf [(''flag'', VNum 2)] = Inr (1, [(''flag'', VNum 2)])"
  by code_simp

section \<open>Which calls are rewritten (C3)\<close>

text \<open>
  C3 says that only a call of \<open>require\<close> with one string literal is rewritten. The code
  tests that the argument is a \<open>Literal\<close> node, which a number, a boolean, \<open>null\<close> and
  a regular expression are as well.

  C3, as amended: a call expression is rewritten into an import only when its callee
  is named \<open>require\<close> and it has exactly one argument, which is a \<open>Literal\<close> node of any
  kind; entering a call whose argument is not a literal, or that has no or several
  arguments, leaves the text, the import counter and the flags as they are (the nodes
  inside its arguments are still visited on their own).
\<close>

theorem call_rewritten_only_for_single_literal:
  assumes "ntype n = ''CallExpression''"
  shows "(enter e (anc, p, n) st = Inr st'
            \<and> (importIndex st' \<noteq> importIndex st \<or> hasImports st' \<noteq> hasImports st
                 \<or> s st' \<noteq> s st)
          \<longrightarrow> (\<exists>arg. requireLiteral n arg))
         \<and> (kid n ''callee'' \<noteq> None
              \<and> \<not> (\<exists>arg. kidsOf n ''arguments'' = [arg] \<and> ntype arg = ''Literal'')
            \<longrightarrow> enter e (anc, p, n) st = Inr st)"
  using assms handleCall_changes [of e anc p n st st'] handleCall_passes [of n _ e anc p st]
  by (auto simp: enter_CallExpression)

text \<open>
  C3 at \<open>require(123)\<close>, which is rewritten and is a call of \<open>require\<close> with one literal,
  and at \<open>require(somevar)\<close>, which is left alone.
\<close>

theorem call_rewritten_only_for_single_literal_witness:
  "ntype (snd (snd numericCall)) = ''CallExpression''
   \<and> importIndex (initial numericUnitCode []) = 0
   \<and> map_sum id importIndex (enter bareEngine numericCall (initial numericUnitCode [])) = Inr 1
   \<and> requireLiteral (snd (snd numericCall)) (snd (nkids (snd (snd numericCall)) ! 1))
   \<and> ntype (snd (snd dynamicCall)) = ''CallExpression''
   \<and> kidsOf (snd (snd dynamicCall)) ''arguments'' = [snd (nkids (snd (snd dynamicCall)) ! 1)]
   \<and> ntype (snd (nkids (snd (snd dynamicCall)) ! 1)) = ''Identifier''
   \<and> enter bareEngine dynamicCall (initial dynamicUnitCode []) = Inr (initial dynamicUnitCode [])"
proof -
  have t: "ntype (snd (snd dynamicCall)) = ''CallExpression''"
    by code_simp
  have c: "kid (snd (snd dynamicCall)) ''callee'' \<noteq> None"
    by code_simp
  have a: "kidsOf (snd (snd dynamicCall)) ''arguments'' = [snd (nkids (snd (snd dynamicCall)) ! 1)]"
    by code_simp
  have i: "ntype (snd (nkids (snd (snd dynamicCall)) ! 1)) = ''Identifier''"
    by code_simp
  have v: "dynamicCall = (fst dynamicCall, fst (snd dynamicCall), snd (snd dynamicCall))"
    by simp
  have "enter bareEngine (fst dynamicCall, fst (snd dynamicCall), snd (snd dynamicCall))
          (initial dynamicUnitCode []) = Inr (initial dynamicUnitCode [])"
    using call_rewritten_only_for_single_literal [OF t, of bareEngine "fst dynamicCall"
        "fst (snd dynamicCall)" "initial dynamicUnitCode []"] c a i
    by simp
  then have "enter bareEngine dynamicCall (initial dynamicUnitCode []) = Inr (initial dynamicUnitCode [])"
    by simp
  moreover have "ntype (snd (snd numericCall)) = ''CallExpression''
     \<and> importIndex (initial numericUnitCode []) = 0
     \<and> map_sum id importIndex (enter bareEngine numericCall (initial numericUnitCode [])) = Inr 1
     \<and> requireLiteral (snd (snd numericCall)) (snd (nkids (snd (snd numericCall)) ! 1))"
    by code_simp
  ultimately show ?thesis
    using t a i by simp
qed

text \<open>
  C3 as stated fails on \<open>require(123)\<close>: the argument is not a string, and the call is
  rewritten into an import of \<open>'123'\<close>.
\<close>

theorem number_literal_is_imported:
  "attr (snd (nkids (snd (snd numericCall)) ! 1)) ''value'' = Some (VNum 123)
   \<and> transform bareEngine [] ''/w'' [] numericUnit numericUnitCode ''/w/main.js'' =
       Some (Inr (interopHelper @ importStatement ''__require__import__0'' ''123''
                  @ ''__interopImport(__require__import__0)''))"
  by code_simp

section \<open>Inclusion follows the branch that fired (C4)\<close>




section \<open>Conditionals that are not evaluated (C5)\<close>

text \<open>
  C5 says that a call whose nearest conditional has a test that is not a binary
  comparison is always included. The search does not stop at such a conditional, it
  goes on to the other ancestors.

  C5, as amended: a \<open>require (literal)\<close> call none of whose ancestors is an
  \<open>IfStatement\<close> with a \<open>BinaryExpression\<close> test is always included; no test is
  evaluated for it.
\<close>

theorem unanalyzable_conditionals_include:
  assumes "requireLiteral n arg" and "\<forall>a \<in> set anc. passedOver (snd a)"
  shows "enter e (anc, p, n) st = includeRequire e n arg st"
proof -
  have "ntype n = ''CallExpression''"
    using assms(1) by (simp add: requireLiteral_def)
  then show ?thesis
    using assms
    by (simp add: enter_CallExpression handleCall_requireLiteral someAncestors_none)
qed

text \<open>
  C5 at \<open>if (x) { require('a') }\<close>.
\<close>

theorem unanalyzable_conditionals_include_witness:
  "requireLiteral (snd (snd opaqueCall)) (snd (nkids (snd (snd opaqueCall)) ! 1))
   \<and> list_all (\<lambda>a. passedOver (snd a)) (fst opaqueCall)
   \<and> enter bareEngine opaqueCall (initial opaqueUnitCode []) =
       includeRequire bareEngine (snd (snd opaqueCall)) (snd (nkids (snd (snd opaqueCall)) ! 1))
         (initial opaqueUnitCode [])"
proof -
  have r: "requireLiteral (snd (snd opaqueCall)) (snd (nkids (snd (snd opaqueCall)) ! 1))"
    by code_simp
  have anc: "\<forall>a \<in> set (fst opaqueCall). passedOver (snd a)"
    by code_simp
  from unanalyzable_conditionals_include [OF r anc, of bareEngine "fst (snd opaqueCall)"
      "initial opaqueUnitCode []"] r anc
  show ?thesis
    by (simp only: list_all_iff prod.collapse simp_thms)
qed

text \<open>
  C5 as stated fails on \<open>if (1 == 2) { if (x) { require('a') } }\<close>: the nearest
  conditional tests an identifier, yet the call is dropped, because the comparison
  further out is false.
\<close>

theorem outer_comparison_drops_unanalyzable:
  "ntype (snd (fst guardedCall ! 3)) = ''IfStatement''
   \<and> passedOver (snd (fst guardedCall ! 3))
   \<and> list_all (\<lambda>a. ntype (snd a) \<noteq> ''IfStatement'') (drop 4 (fst guardedCall))
   \<and> requireLiteral (snd (snd guardedCall)) (snd (nkids (snd (snd guardedCall)) ! 1))
   \<and> someAncestors bareEngine (fst guardedCall) (fst (snd guardedCall)) [] = Inr (False, [])
   \<and> transform bareEngine [] ''/w'' [] guardedUnit guardedUnitCode ''/w/main.js'' =
       Some (Inr guardedUnitCode)"
  by code_simp

section \<open>The interop helper (C6)\<close>




section \<open>The order of the edits (C7)\<close>



section \<open>The order of the footer (C8)\<close>




section \<open>The named exports (C9)\<close>




section \<open>The two interop helpers (C10)\<close>

text \<open>
  C10 says that the helper emitted by \<open>src/index.js\<close> and the one emitted by
  \<open>src/unnamed/part_000\<close> return the same value for every namespace. They differ on
  a namespace whose \<open>default\<close> is \<open>false\<close> (the case of the repository's test
  \<open>Import CJS with default set to false\<close>, which expects \<open>false\<close>), and on a namespace
  with the marker and a truthy \<open>default\<close>; on the other namespaces they agree
  (\<open>interop_helpers_agree\<close>).
\<close>

theorem index_helper_loses_false_default:
  "interopImport_index [(''default'', VBool False)] = VObj [(''default'', VBool False)]
   \<and> interopImport [(''default'', VBool False)] = VBool False
   \<and> interopImport_index [(''__esModule'', VBool True), (''default'', VNum 1)] = VNum 1
   \<and> interopImport [(''__esModule'', VBool True), (''default'', VNum 1)] =
       VObj [(''__esModule'', VBool True), (''default'', VNum 1)]"
  by (simp add: interopImport_index_def interopImport_def getProp_def)

end
